theory Spec2Isabelle
  imports Main "HOL-Library.Sublist"
begin

section \<open>Python strings\<close>

text \<open>
  A Python \<open>str\<close> is a sequence of code points. It is modelled as a \<open>string\<close>, each
  \<open>char\<close> standing for the code point of the same number (0 to 255, the Latin-1 block);
  names with code points above 255 are outside the model. The character classes below are
  those of Python 3 on that block: \<open>str.isspace\<close> (which is also what \<open>str.strip\<close> removes
  and what \<open>\s\<close> matches in a \<open>str\<close> pattern), \<open>\w\<close> (alphanumeric or underscore), and
  \<open>str.lower\<close>, which on this block maps one code point to one code point.
\<close>

definition is_space :: "char \<Rightarrow> bool" where
  "is_space c =
     (let n = (of_char c :: nat)
      in (9 \<le> n \<and> n \<le> 13) \<or> (28 \<le> n \<and> n \<le> 32) \<or> n = 133 \<or> n = 160)"

definition is_word :: "char \<Rightarrow> bool" where
  "is_word c =
     (let n = (of_char c :: nat)
      in (48 \<le> n \<and> n \<le> 57) \<or> (65 \<le> n \<and> n \<le> 90) \<or> n = 95 \<or> (97 \<le> n \<and> n \<le> 122)
         \<or> n = 170 \<or> n = 178 \<or> n = 179 \<or> n = 181 \<or> n = 185 \<or> n = 186
         \<or> (188 \<le> n \<and> n \<le> 190) \<or> (192 \<le> n \<and> n \<le> 214) \<or> (216 \<le> n \<and> n \<le> 246)
         \<or> (248 \<le> n \<and> n \<le> 255))"

definition lower_char :: "char \<Rightarrow> char" where
  "lower_char c =
     (let n = (of_char c :: nat)
      in if (65 \<le> n \<and> n \<le> 90) \<or> (192 \<le> n \<and> n \<le> 214) \<or> (216 \<le> n \<and> n \<le> 222)
         then char_of (n + 32) else c)"

text \<open>\<open>s.lower()\<close>\<close>

definition lower :: "string \<Rightarrow> string" where
  "lower s = map lower_char s"

text \<open>\<open>s.strip()\<close>: leading and trailing whitespace removed.\<close>

definition strip :: "string \<Rightarrow> string" where
  "strip s = rev (dropWhile is_space (rev (dropWhile is_space s)))"

text \<open>\<open>t in s\<close> for two strings: \<open>t\<close> occurs in \<open>s\<close> as a contiguous run.\<close>

fun str_in :: "string \<Rightarrow> string \<Rightarrow> bool" where
  "str_in t [] = (t = [])"
| "str_in t (c # cs) = (take (length t) (c # cs) = t \<or> str_in t cs)"

text \<open>\<open>any(term in s for term in terms)\<close>\<close>

definition any_in :: "string list \<Rightarrow> string \<Rightarrow> bool" where
  "any_in terms s = list_ex (\<lambda>t. str_in t s) terms"

text \<open>\<open>re.sub(r'\s+', ' ', s)\<close>: every maximal run of whitespace becomes one space.\<close>

function collapse_ws :: "string \<Rightarrow> string" where
  "collapse_ws [] = []"
| "collapse_ws (c # cs) =
     (if is_space c then CHR '' '' # collapse_ws (dropWhile is_space cs)
      else c # collapse_ws cs)"
  by pat_completeness auto
termination
  by (relation "measure length") (auto simp: length_dropWhile_le less_Suc_eq_le)

text \<open>\<open>re.sub(r'[^\w\s]', '', s)\<close>: every character that is neither a word character nor
  whitespace is deleted.\<close>

definition strip_special :: "string \<Rightarrow> string" where
  "strip_special s = filter (\<lambda>c. is_word c \<or> is_space c) s"

text \<open>A string without punctuation: every character is a word character or whitespace,
  so \<open>strip_special\<close> deletes nothing from it.\<close>

definition punct_free :: "string \<Rightarrow> bool" where
  "punct_free s = list_all (\<lambda>c. is_word c \<or> is_space c) s"

section \<open>Discovery: candidates, deduplication, classification\<close>

text \<open>
  A candidate is the dictionary appended to \<open>companies_found\<close>. The record holds the keys
  that deduplication and classification read or write; the other, source-specific keys
  (\<open>launch_date\<close>, \<open>github_url\<close>, ...) are never read by them. \<open>description\<close>,
  \<open>github_stars\<close> and \<open>votes\<close> are present only for some sources, and the description
  that the code-hosting search returns may be JSON \<open>null\<close>.
\<close>

datatype descr = NoKey | JsonNull | Text string

record candidate =
  name :: string
  source :: string
  category :: string
  confidence :: string
  description :: descr
  github_stars :: "int option"
  votes :: "int option"
  relevance :: "string option"

text \<open>The exceptions of the model. \<open>RequestException\<close> stands for whatever a network
  call or a parser of a response raises.\<close>

datatype error = AttributeError | KeyError | TypeError | ValueError | RequestException

text \<open>The name normalisation of \<open>deduplicate_companies\<close> (its three assignments to
  \<open>name\<close>).\<close>

definition normalize_name :: "string \<Rightarrow> string" where
  "normalize_name n = strip_special (collapse_ws (strip (lower n)))"

text \<open>The loop of \<open>deduplicate_companies\<close>, with \<open>seen_names\<close> and \<open>unique_companies\<close>
  as accumulators.\<close>

fun dedupe_loop :: "string set \<Rightarrow> candidate list \<Rightarrow> candidate list \<Rightarrow> candidate list" where
  "dedupe_loop seen_names unique_companies [] = unique_companies"
| "dedupe_loop seen_names unique_companies (company # rest) =
     (let nm = normalize_name (name company)
      in if nm \<notin> seen_names \<and> length nm > 2
         then dedupe_loop (insert nm seen_names) (unique_companies @ [company]) rest
         else dedupe_loop seen_names unique_companies rest)"

definition deduplicate_companies :: "candidate list \<Rightarrow> candidate list" where
  "deduplicate_companies companies_found = dedupe_loop {} [] companies_found"

text \<open>
  The body of the loop of \<open>classify_companies\<close> for one company. \<open>.lower()\<close> on a
  \<open>null\<close> description raises \<open>AttributeError\<close>. The score is threaded through the
  four conditional increments in the order of the source.
\<close>

definition direct_terms :: "string list" where
  "direct_terms = [''chatbot'', ''ai assistant'', ''legal assistant'', ''legal ai'']"

definition indirect_terms :: "string list" where
  "indirect_terms = [''legal tech'', ''law tech'', ''contract'', ''litigation'', ''compliance'']"

definition confidence_level :: "int \<Rightarrow> string" where
  "confidence_level confidence_score =
     (if confidence_score \<ge> 4 then ''very_high''
      else if confidence_score \<ge> 3 then ''high''
      else if confidence_score \<ge> 2 then ''medium''
      else ''low'')"

definition classify_company :: "candidate \<Rightarrow> error + candidate" where
  "classify_company company =
     (case description company of
        JsonNull \<Rightarrow> Inl AttributeError
      | d \<Rightarrow>
         (let name_lower = lower (name company);
              description = lower (case d of Text s \<Rightarrow> s | _ \<Rightarrow> []);
              source = source company;
              confidence_score = (0::int);
              (rel, confidence_score) =
                 (if any_in direct_terms (name_lower @ description)
                  then (''direct'', confidence_score + 3)
                  else if any_in indirect_terms (name_lower @ description)
                  then (''indirect'', confidence_score + 2)
                  else (''peripheral'', confidence_score + 1));
              confidence_score =
                 (if str_in ''API'' source then confidence_score + 1 else confidence_score);
              confidence_score =
                 (if (case github_stars company of None \<Rightarrow> 0 | Some n \<Rightarrow> n) > 100
                  then confidence_score + 1 else confidence_score);
              confidence_score =
                 (if (case votes company of None \<Rightarrow> 0 | Some n \<Rightarrow> n) > 50
                  then confidence_score + 1 else confidence_score)
          in Inr (company\<lparr>relevance := Some rel,
                          confidence := confidence_level confidence_score\<rparr>)))"

fun classify_companies :: "candidate list \<Rightarrow> error + candidate list" where
  "classify_companies [] = Inr []"
| "classify_companies (company # rest) =
     (case classify_company company of
        Inl e \<Rightarrow> Inl e
      | Inr c \<Rightarrow> (case classify_companies rest of Inl e \<Rightarrow> Inl e | Inr cs \<Rightarrow> Inr (c # cs)))"

text \<open>The deduplication key of a candidate: its normalised name.\<close>

definition dedupe_key :: "candidate \<Rightarrow> string" where
  "dedupe_key company = normalize_name (name company)"

text \<open>
  The point score as the specification words it: base points by relevance tier, plus one
  point for each bonus that applies. It is compared below with the score that
  \<open>classify_company\<close> accumulates.
\<close>

definition spec_base_points :: "string \<Rightarrow> int" where
  "spec_base_points rel = (if rel = ''direct'' then 3 else if rel = ''indirect'' then 2 else 1)"

definition spec_bonus :: "bool \<Rightarrow> int" where
  "spec_bonus b = (if b then 1 else 0)"

definition spec_points :: "candidate \<Rightarrow> string \<Rightarrow> int" where
  "spec_points c rel =
     spec_base_points rel + spec_bonus (str_in ''API'' (source c))
       + spec_bonus (case github_stars c of None \<Rightarrow> False | Some n \<Rightarrow> n > 100)
       + spec_bonus (case votes c of None \<Rightarrow> False | Some n \<Rightarrow> n > 50)"

text \<open>
  The relevance tier and the cut points as the specification words them: a candidate is
  direct when its lowercased name followed by its lowercased description contains a term of
  an AI legal assistant, indirect when it contains a legal-technology term, peripheral
  otherwise; the confidence is \<open>very_high\<close> from 4 points, \<open>high\<close> at 3, \<open>medium\<close>
  at 2, \<open>low\<close> below.
\<close>

definition spec_relevance :: "candidate \<Rightarrow> string" where
  "spec_relevance c =
     (let text = lower (name c) @ lower (case description c of Text s \<Rightarrow> s | _ \<Rightarrow> [])
      in if any_in direct_terms text then ''direct''
         else if any_in indirect_terms text then ''indirect''
         else ''peripheral'')"

definition spec_confidence :: "int \<Rightarrow> string" where
  "spec_confidence points =
     (if 4 \<le> points then ''very_high''
      else if points = 3 then ''high''
      else if points = 2 then ''medium''
      else ''low'')"

text \<open>Example candidates: as \<open>search_startup_databases\<close> appends them (no description,
  stars or votes), and as \<open>search_github_legal_repos\<close> does (a description and stars).\<close>

definition cand :: "string \<Rightarrow> candidate" where
  "cand n = \<lparr>name = n, source = ''Startup Database'', category = ''legal_tech'',
             confidence = ''high'', description = NoKey, github_stars = None, votes = None,
             relevance = None\<rparr>"

definition ex_direct :: candidate where
  "ex_direct = \<lparr>name = ''LexBot legal assistant'', source = ''GitHub API'',
     category = ''legal_tech_github'', confidence = ''medium'', description = NoKey,
     github_stars = Some 150, votes = None, relevance = None\<rparr>"

definition ex_peripheral :: candidate where
  "ex_peripheral = \<lparr>name = ''Intapp'', source = ''Startup Database'',
     category = ''legal_tech'', confidence = ''high'', description = NoKey,
     github_stars = None, votes = None, relevance = None\<rparr>"

definition ex_high :: candidate where
  "ex_high = \<lparr>name = ''LexBot'', source = ''Startup Database'',
     category = ''legal_tech'', confidence = ''high'', description = Text ''A legal AI'',
     github_stars = Some 100, votes = Some 50, relevance = None\<rparr>"

definition ex_medium :: candidate where
  "ex_medium = \<lparr>name = ''Docket'', source = ''Startup Database'',
     category = ''legal_tech'', confidence = ''high'', description = Text ''Contract review'',
     github_stars = None, votes = None, relevance = None\<rparr>"

definition ex_null_description :: candidate where
  "ex_null_description = \<lparr>name = ''lawkit'', source = ''GitHub API'',
     category = ''legal_tech_github'', confidence = ''medium'', description = JsonNull,
     github_stars = Some 12, votes = None, relevance = None\<rparr>"

section \<open>JSON values and dictionaries\<close>

text \<open>
  The values that \<open>json.loads\<close> returns. Numbers are carried as integers: the code never
  inspects a number that the language model returned. The items of a \<open>JDict\<close> are those
  of the Python dictionary, in insertion order.
\<close>

datatype json = JNull | JBool bool | JNum int | JStr string | JList "json list"
  | JDict "(string \<times> json) list"

text \<open>
  A Python dictionary with string keys is an association list in insertion order.
  \<open>dict_set\<close> is the assignment \<open>d[k] = v\<close> (an existing key keeps its place),
  \<open>dict_get\<close> the lookup, \<open>dict_update\<close> is \<open>d.update(other)\<close> for a dictionary
  \<open>other\<close>.
\<close>

type_synonym 'v dict = "(string \<times> 'v) list"

definition dict_get :: "'v dict \<Rightarrow> string \<Rightarrow> 'v option" where
  "dict_get d k = map_of d k"

fun dict_set :: "string \<Rightarrow> 'v \<Rightarrow> 'v dict \<Rightarrow> 'v dict" where
  "dict_set k v [] = [(k, v)]"
| "dict_set k v ((k', v') # d) = (if k' = k then (k, v) # d else (k', v') # dict_set k v d)"

definition dict_update :: "'v dict \<Rightarrow> 'v dict \<Rightarrow> 'v dict" where
  "dict_update d other = fold (\<lambda>(k, v) acc. dict_set k v acc) other d"

definition dict_keys :: "'v dict \<Rightarrow> string list" where
  "dict_keys d = map fst d"

text \<open>\<open>sep.join(xs)\<close>\<close>

fun join :: "string \<Rightarrow> string list \<Rightarrow> string" where
  "join sep [] = []"
| "join sep [x] = x"
| "join sep (x # y # ys) = x @ sep @ join sep (y # ys)"

text \<open>\<open>str(n)\<close> for an integer, as an f-string formats it.\<close>

function digits :: "nat \<Rightarrow> string" where
  "digits n = (if n < 10 then [char_of (48 + n)] else digits (n div 10) @ [char_of (48 + n mod 10)])"
  by pat_completeness auto
termination
  by (relation "measure id") auto

definition str_int :: "int \<Rightarrow> string" where
  "str_int i = (if i < 0 then CHR ''-'' # digits (nat (- i)) else digits (nat i))"

text \<open>
  \<open>int(s)\<close> for a string: whitespace around, an optional sign, then decimal digits, where
  single underscores may stand between digits. The whitespace that \<open>int\<close> accepts is
  narrower than \<open>str.isspace\<close>: the separators 28 to 31 are not accepted. \<open>None\<close> is
  \<open>ValueError\<close>.
\<close>

definition int_space :: "char \<Rightarrow> bool" where
  "int_space c =
     (let n = (of_char c :: nat) in (9 \<le> n \<and> n \<le> 13) \<or> n = 32 \<or> n = 133 \<or> n = 160)"

definition is_digit :: "char \<Rightarrow> bool" where
  "is_digit c = (let n = (of_char c :: nat) in 48 \<le> n \<and> n \<le> 57)"

fun digits_val :: "string \<Rightarrow> nat \<Rightarrow> bool \<Rightarrow> nat option" where
  "digits_val [] acc after_digit = (if after_digit then Some acc else None)"
| "digits_val (c # cs) acc after_digit =
     (if is_digit c then digits_val cs (acc * 10 + (of_char c - 48)) True
      else if c = CHR ''_'' \<and> after_digit \<and> cs \<noteq> [] then digits_val cs acc False
      else None)"

definition py_int :: "string \<Rightarrow> int option" where
  "py_int s =
     (let t = rev (dropWhile int_space (rev (dropWhile int_space s)));
          (sign, body) =
             (case t of
                c # cs \<Rightarrow> if c = CHR ''-'' then (- 1, cs) else if c = CHR ''+'' then (1, cs)
                          else (1::int, t)
              | [] \<Rightarrow> (1, t))
      in case digits_val body 0 False of
           None \<Rightarrow> None
         | Some v \<Rightarrow> Some (sign * int v))"

section \<open>Research: the evidence bundle\<close>

text \<open>
  The fragments that the source adapters build, with the keys that later code reads. A
  news article is the dictionary of \<open>google_news_search\<close>, a discussion that of
  \<open>hacker_news_search\<close>, a repository and the code-hosting summary those of
  \<open>github_search\<close>, the registry record that of \<open>opencorporates_search\<close>.

  The adapters copy some values from the JSON payload as they are, and such a value may be
  JSON \<open>null\<close>. Where later code tells \<open>null\<close> from a value of the expected type, the
  field is an \<open>option\<close> with \<open>None\<close> for \<open>null\<close>: the title and the points of a
  discussion, the repository count (\<open>total_count\<close> of the payload) and the jurisdiction.
  The other fields are values that the adapter computed (a slice, a sum, a string of the
  feed parser), or copies on which \<open>null\<close> acts as the empty string in every use below:
  \<open>incorporation_date\<close> and \<open>website\<close> are tested for truth before any other use, a
  repository name is only searched for the terms of \<open>repo_ai_terms\<close>, which neither
  the text \<open>None\<close> nor a text around the blank after it can complete, and
  \<open>registered_name\<close> and \<open>status\<close> only go into the prompt.
\<close>

record article =
  art_title :: string
  art_description :: string

record discussion =
  hn_title :: "string option"
  hn_text :: string
  hn_points :: "int option"

record repo =
  repo_name :: string
  repo_description :: string

record github =
  repo_count :: "int option"
  total_stars :: int
  languages :: "string list"
  public_repos :: "repo list"

record corporate =
  registered_name :: string
  jurisdiction :: "string option"
  incorporation_date :: string
  status :: string

text \<open>
  \<open>search_data\<close>, the evidence bundle of \<open>web_search_agent\<close>. The two dictionaries
  \<open>github_activity\<close> and \<open>corporate_data\<close> start as \<open>{}\<close>, which is \<open>None\<close> here; every
  read of them goes through \<open>.get\<close> with a default, or tests the dictionary for emptiness.
\<close>

record search_data =
  website :: string
  search_results :: string
  news_mentions :: "article list"
  github_activity :: "github option"
  corporate_data :: "corporate option"
  tech_mentions :: "discussion list"

text \<open>
  What each adapter call of \<open>web_search_agent\<close> does on one run: it raises (\<open>Inl\<close>) or
  returns its fragment (\<open>Inr\<close>). The two search adapters return the pair of \<open>website\<close> and
  \<open>search_results\<close>. The network is outside the model, so these outcomes are its inputs.
\<close>

record adapters =
  duckduckgo_search :: "error + string \<times> string"
  google_news_search :: "error + article list"
  hacker_news_search :: "error + discussion list"
  opencorporates_search :: "error + corporate option"
  github_search :: "error + github"
  google_scraping_fallback :: "error + string \<times> string"

text \<open>How an f-string formats a value that is a string or \<open>None\<close>.\<close>

definition py_str :: "string option \<Rightarrow> string" where
  "py_str v = (case v of None \<Rightarrow> ''None'' | Some s \<Rightarrow> s)"

text \<open>The last part of \<open>web_search_agent\<close>: the text compiled from the search results,
  the first three news articles and the first two discussions, each cut to its bound.\<close>

definition compile_content :: "search_data \<Rightarrow> string" where
  "compile_content search_data =
     (let all_content = [];
          all_content =
            (if search_results search_data \<noteq> []
             then all_content @ take 1000 (search_results search_data) else all_content);
          all_content =
            fold (\<lambda>article acc.
                    acc @ take 500 ('' '' @ art_title article @ '' '' @ art_description article))
              (take 3 (news_mentions search_data)) all_content;
          all_content =
            fold (\<lambda>discussion acc.
                    acc @ take 300 ('' '' @ py_str (hn_title discussion) @ '' '' @ hn_text discussion))
              (take 2 (tech_mentions search_data)) all_content
      in all_content)"

definition web_search_agent :: "adapters \<Rightarrow> search_data" where
  "web_search_agent ad =
     (let search_data = \<lparr>website = [], search_results = [], news_mentions = [],
                          github_activity = None, corporate_data = None, tech_mentions = []\<rparr>;
          search_data =
            (case duckduckgo_search ad of
               Inr (w, r) \<Rightarrow> search_data\<lparr>website := w, search_results := r\<rparr>
             | Inl e \<Rightarrow> search_data);
          search_data =
            (case google_news_search ad of
               Inr news_data \<Rightarrow> search_data\<lparr>news_mentions := news_data\<rparr>
             | Inl e \<Rightarrow> search_data);
          search_data =
            (case hacker_news_search ad of
               Inr hn_data \<Rightarrow> search_data\<lparr>tech_mentions := hn_data\<rparr>
             | Inl e \<Rightarrow> search_data);
          search_data =
            (case opencorporates_search ad of
               Inr corp_data \<Rightarrow> search_data\<lparr>corporate_data := corp_data\<rparr>
             | Inl e \<Rightarrow> search_data);
          search_data =
            (case github_search ad of
               Inr github_data \<Rightarrow> search_data\<lparr>github_activity := Some github_data\<rparr>
             | Inl e \<Rightarrow> search_data);
          search_data =
            (if website search_data = [] \<and> search_results search_data = []
             then (case google_scraping_fallback ad of
                     Inr (w, r) \<Rightarrow> search_data\<lparr>website := w, search_results := r\<rparr>
                   | Inl e \<Rightarrow> search_data)
             else search_data)
      in search_data\<lparr>search_results := compile_content search_data\<rparr>)"

section \<open>Research: the fallback heuristic\<close>

text \<open>The text of a news article and of a repository as \<open>enhanced_fallback_analysis\<close>
  builds them.\<close>

definition article_text :: "article \<Rightarrow> string" where
  "article_text article = lower (art_title article @ '' '' @ art_description article)"

definition repo_text :: "repo \<Rightarrow> string" where
  "repo_text repo = lower (repo_name repo @ '' '' @ repo_description repo)"

definition name_ai_terms :: "string list" where
  "name_ai_terms = [''ai'', ''chatbot'', ''assistant'', ''gpt'', ''bot'']"

definition search_ai_terms :: "string list" where
  "search_ai_terms = [''artificial intelligence'', ''machine learning'', ''nlp'', ''chatbot'']"

definition news_ai_terms :: "string list" where
  "news_ai_terms = [''ai'', ''artificial intelligence'', ''chatbot'']"

definition repo_ai_terms :: "string list" where
  "repo_ai_terms = [''ai'', ''ml'', ''nlp'', ''chatbot'', ''assistant'']"

text \<open>The two loops that add one point at the first match and break.\<close>

fun news_ai_loop :: "article list \<Rightarrow> int \<Rightarrow> int" where
  "news_ai_loop [] ai_indicators = ai_indicators"
| "news_ai_loop (article # rest) ai_indicators =
     (if any_in news_ai_terms (article_text article) then ai_indicators + 1
      else news_ai_loop rest ai_indicators)"

fun repo_ai_loop :: "repo list \<Rightarrow> int \<Rightarrow> int" where
  "repo_ai_loop [] ai_indicators = ai_indicators"
| "repo_ai_loop (repo # rest) ai_indicators =
     (if any_in repo_ai_terms (repo_text repo) then ai_indicators + 1
      else repo_ai_loop rest ai_indicators)"

definition ai_indicator_score :: "string \<Rightarrow> search_data \<Rightarrow> int" where
  "ai_indicator_score company_name search_data =
     (let company_lower = lower company_name;
          search_text = lower (search_results search_data);
          ai_indicators = (0::int);
          ai_indicators =
            (if any_in name_ai_terms company_lower then ai_indicators + 2 else ai_indicators);
          ai_indicators =
            (if any_in search_ai_terms search_text then ai_indicators + 1 else ai_indicators);
          ai_indicators = news_ai_loop (news_mentions search_data) ai_indicators;
          ai_indicators =
            repo_ai_loop (case github_activity search_data of None \<Rightarrow> []
                          | Some github_data \<Rightarrow> public_repos github_data) ai_indicators
      in ai_indicators)"

definition ai_label :: "int \<Rightarrow> string" where
  "ai_label ai_indicators =
     (if ai_indicators \<ge> 3 then ''Yes - multiple AI indicators found''
      else if ai_indicators \<ge> 1 then ''Possible - some AI indicators found''
      else ''No - no clear AI indicators'')"

text \<open>
  Stage detection. The loop over the news stops at the first article that has a funding
  term; it returns the dictionary and \<open>funding_found\<close>.
\<close>

definition funding_terms :: "string list" where
  "funding_terms = [''funding'', ''investment'', ''series'', ''raised'', ''venture'']"

fun funding_loop :: "article list \<Rightarrow> string dict \<Rightarrow> string dict \<times> bool" where
  "funding_loop [] fallback_data = (fallback_data, False)"
| "funding_loop (article # rest) fallback_data =
     (let article_text = article_text article
      in if any_in funding_terms article_text
         then ((if str_in ''series c'' article_text \<or> str_in ''series d'' article_text
                then dict_set ''stage'' ''Established'' fallback_data
                else if str_in ''series a'' article_text \<or> str_in ''series b'' article_text
                then dict_set ''stage'' ''Growth'' fallback_data
                else if str_in ''seed'' article_text
                then dict_set ''stage'' ''Startup'' fallback_data
                else fallback_data), True)
         else funding_loop rest fallback_data)"

definition stage_from_registry :: "corporate option \<Rightarrow> string dict \<Rightarrow> string dict" where
  "stage_from_registry corp_data fallback_data =
     (case corp_data of
        None \<Rightarrow> fallback_data
      | Some corp \<Rightarrow>
          if incorporation_date corp = [] then fallback_data
          else (case py_int (take 4 (incorporation_date corp)) of
                  None \<Rightarrow> fallback_data
                | Some inc_year \<Rightarrow>
                    (let current_year = 2025;
                         years_active = current_year - inc_year
                     in if years_active \<ge> 8 then dict_set ''stage'' ''Established'' fallback_data
                        else if years_active \<ge> 4 then dict_set ''stage'' ''Growth'' fallback_data
                        else dict_set ''stage'' ''Startup'' fallback_data)))"

definition detect_stage :: "search_data \<Rightarrow> string dict \<Rightarrow> string dict" where
  "detect_stage search_data fallback_data =
     (let corp_data = corporate_data search_data;
          recent_news = news_mentions search_data;
          (fallback_data, funding_found) = funding_loop recent_news fallback_data
      in if \<not> funding_found then stage_from_registry corp_data fallback_data
         else fallback_data)"

text \<open>
  Geographic coverage. \<open>coverage_indicators\<close> receives at most one entry from the
  jurisdiction and at most one from the text. The news text is not lowercased here.
\<close>

definition jurisdiction_indicators :: "corporate option \<Rightarrow> string list \<Rightarrow> string list" where
  "jurisdiction_indicators corp_data coverage_indicators =
     (case corp_data of
        None \<Rightarrow> coverage_indicators
      | Some corp \<Rightarrow>
          (case jurisdiction corp of
             None \<Rightarrow> coverage_indicators
           | Some code \<Rightarrow>
               if code = [] then coverage_indicators
               else (let jurisdiction = lower code
                     in if str_in ''de'' jurisdiction \<or> str_in ''german'' jurisdiction
                        then coverage_indicators @ [''Germany'']
                        else if any_in [''gb'', ''fr'', ''es'', ''it'', ''nl''] jurisdiction
                        then coverage_indicators @ [''Europe'']
                        else if str_in ''us'' jurisdiction
                        then coverage_indicators @ [''Global/US'']
                        else coverage_indicators)))"

definition coverage_all_text :: "search_data \<Rightarrow> string" where
  "coverage_all_text search_data =
     lower (search_results search_data) @ '' '' @
       join '' '' (map (\<lambda>a. art_title a @ '' '' @ art_description a) (news_mentions search_data))"

definition text_indicators :: "string \<Rightarrow> string list \<Rightarrow> string list" where
  "text_indicators all_text coverage_indicators =
     (if any_in [''german'', ''germany'', ''deutsch''] all_text
      then coverage_indicators @ [''Germany'']
      else if any_in [''europe'', ''european'', ''eu''] all_text
      then coverage_indicators @ [''Europe'']
      else if any_in [''global'', ''worldwide'', ''international''] all_text
      then coverage_indicators @ [''Global'']
      else coverage_indicators)"

text \<open>
  \<open>list(set(xs))\<close> lists the distinct elements of \<open>xs\<close> in the order of the interpreter's
  string hashing, which changes from run to run. That order is the parameter \<open>set_list\<close>
  of the model; \<open>is_set_listing\<close> is what every such order satisfies.
\<close>

definition is_set_listing :: "(string list \<Rightarrow> string list) \<Rightarrow> bool" where
  "is_set_listing set_list = (\<forall>xs. distinct (set_list xs) \<and> set (set_list xs) = set xs)"

definition detect_coverage ::
  "(string list \<Rightarrow> string list) \<Rightarrow> search_data \<Rightarrow> string dict \<Rightarrow> string dict" where
  "detect_coverage set_list search_data fallback_data =
     (let coverage_indicators = [];
          coverage_indicators =
            jurisdiction_indicators (corporate_data search_data) coverage_indicators;
          all_text = coverage_all_text search_data;
          coverage_indicators = text_indicators all_text coverage_indicators
      in if coverage_indicators \<noteq> []
         then dict_set ''coverage'' (join ''/'' (set_list coverage_indicators)) fallback_data
         else fallback_data)"

text \<open>
  The comment with the insights of the adapters. Two of its parts compute with numbers of
  the payload: \<open>repo_count > 0\<close> and the \<open>sum\<close> of the points raise \<open>TypeError\<close> on
  \<open>None\<close>, and no \<open>try\<close> encloses them. \<open>py_sum\<close> is \<open>sum\<close> with its accumulator.
  The key \<open>comment\<close> is in the literal that \<open>fallback_data\<close> starts from, so the
  \<open>+=\<close> on it always finds it.
\<close>

fun py_sum :: "int \<Rightarrow> int option list \<Rightarrow> error + int" where
  "py_sum acc [] = Inr acc"
| "py_sum acc (None # rest) = Inl TypeError"
| "py_sum acc (Some x # rest) = py_sum (acc + x) rest"

definition comment_parts :: "search_data \<Rightarrow> error + string list" where
  "comment_parts search_data =
     (let recent_news = news_mentions search_data;
          github_data = github_activity search_data;
          corp_data = corporate_data search_data;
          comment_parts = [];
          comment_parts =
            (if recent_news \<noteq> []
             then comment_parts @
               [''Recent news: '' @ str_int (int (length recent_news)) @ '' articles found'']
             else comment_parts)
      in case (case github_data of
                 None \<Rightarrow> Inr comment_parts
               | Some g \<Rightarrow>
                   (case repo_count g of
                      None \<Rightarrow> Inl TypeError
                    | Some n \<Rightarrow>
                        if n > 0
                        then Inr (comment_parts @
                               [''GitHub: '' @ str_int n @ '' repositories, '' @
                                  str_int (total_stars g) @ '' stars''])
                        else Inr comment_parts)) of
           Inl e \<Rightarrow> Inl e
         | Inr comment_parts \<Rightarrow>
             (let comment_parts =
                    (case corp_data of
                       None \<Rightarrow> comment_parts
                     | Some corp \<Rightarrow>
                         comment_parts @ [''Registered in '' @ py_str (jurisdiction corp)]);
                  tech_discussions = tech_mentions search_data
              in if tech_discussions \<noteq> []
                 then (case py_sum 0 (map hn_points tech_discussions) of
                         Inl e \<Rightarrow> Inl e
                       | Inr total_points \<Rightarrow>
                           Inr (comment_parts @
                             [''HN discussions: '' @ str_int (int (length tech_discussions)) @
                                '' posts, '' @ str_int total_points @ '' total points'']))
                 else Inr comment_parts))"

text \<open>The literal that \<open>fallback_data\<close> starts from.\<close>

definition fallback_defaults :: "string \<Rightarrow> string dict" where
  "fallback_defaults company_name =
     [(''ai_powered_legal_chatbot'', ''Unknown''),
      (''stage'', ''Unknown''),
      (''multilingual_support'', ''Unknown''),
      (''mobile_web_accessibility'', ''Unknown''),
      (''free_tier'', ''Unknown''),
      (''subscription_based'', ''Unknown''),
      (''target_audience'', ''Unknown''),
      (''coverage'', ''Unknown''),
      (''founding_team_rating'', ''3''),
      (''direct_indirect'', ''Unknown''),
      (''comment'', ''Enhanced analysis using FREE APIs for '' @ company_name)]"

definition enhanced_fallback_analysis ::
  "(string list \<Rightarrow> string list) \<Rightarrow> string \<Rightarrow> search_data \<Rightarrow> error + string dict" where
  "enhanced_fallback_analysis set_list company_name search_data =
     (let fallback_data = fallback_defaults company_name;
          fallback_data =
            dict_set ''ai_powered_legal_chatbot''
              (ai_label (ai_indicator_score company_name search_data)) fallback_data;
          fallback_data = detect_stage search_data fallback_data;
          fallback_data = detect_coverage set_list search_data fallback_data
      in case comment_parts search_data of
           Inl e \<Rightarrow> Inl e
         | Inr parts \<Rightarrow>
             if parts \<noteq> []
             then (case dict_get fallback_data ''comment'' of
                     Some comment \<Rightarrow>
                       Inr (dict_set ''comment''
                              (comment @ ''. Additional insights: '' @ join ''; '' parts)
                              fallback_data)
                   | None \<Rightarrow> Inl KeyError)
             else Inr fallback_data)"

section \<open>Research: the language model and the other agents\<close>

text \<open>
  One attempt of \<open>call_groq_llm\<close>: the HTTP call raises, or it returns a status code and,
  when the body is the expected JSON, the content of the first choice (\<open>None\<close> when
  \<open>response.json()\<close> or the indexing into it raises, or the content is not a string).
\<close>

datatype llm_attempt =
    Response nat "string option"
  | RaisedConnectionError
  | RaisedTimeout
  | RaisedOther

text \<open>
  The retry loop of \<open>call_groq_llm\<close> over \<open>range(retries)\<close>. \<open>json_loads\<close> is
  \<open>json.loads\<close> (\<open>None\<close> when it raises) and \<open>groq\<close> gives the outcome of each attempt;
  both are parameters. Sleeping is not modelled.
\<close>

fun call_groq_loop ::
  "(string \<Rightarrow> json option) \<Rightarrow> (nat \<Rightarrow> llm_attempt) \<Rightarrow> nat \<Rightarrow> nat list \<Rightarrow> string option" where
  "call_groq_loop json_loads groq retries [] = None"
| "call_groq_loop json_loads groq retries (attempt # rest) =
     (case groq attempt of
        Response status_code body \<Rightarrow>
          if status_code = 200 then
            (case body of
               Some content \<Rightarrow>
                 (case json_loads content of
                    Some v \<Rightarrow> Some content
                  | None \<Rightarrow>
                      if attempt < retries - 1
                      then call_groq_loop json_loads groq retries rest else None)
             | None \<Rightarrow>
                 if attempt < retries - 1
                 then call_groq_loop json_loads groq retries rest else None)
          else if status_code = 429 then call_groq_loop json_loads groq retries rest
          else if status_code = 401 then None
          else if status_code \<ge> 500 then call_groq_loop json_loads groq retries rest
          else None
      | RaisedConnectionError \<Rightarrow>
          if attempt < retries - 1 then call_groq_loop json_loads groq retries rest else None
      | RaisedTimeout \<Rightarrow>
          if attempt < retries - 1 then call_groq_loop json_loads groq retries rest else None
      | RaisedOther \<Rightarrow>
          if attempt < retries - 1 then call_groq_loop json_loads groq retries rest else None)"

definition call_groq_llm ::
  "(string \<Rightarrow> json option) \<Rightarrow> (nat \<Rightarrow> llm_attempt) \<Rightarrow> string option" where
  "call_groq_llm json_loads groq = (let retries = 3 in call_groq_loop json_loads groq retries [0..<retries])"

text \<open>The fallback dictionary as a JSON object: its values are strings.\<close>

definition fallback_json ::
  "(string list \<Rightarrow> string list) \<Rightarrow> string \<Rightarrow> search_data \<Rightarrow> error + json" where
  "fallback_json set_list company_name search_data =
     (case enhanced_fallback_analysis set_list company_name search_data of
        Inl e \<Rightarrow> Inl e
      | Inr fallback_data \<Rightarrow> Inr (JDict (map (\<lambda>(k, v). (k, JStr v)) fallback_data)))"

text \<open>
  The part of the prompt on the code-hosting activity. \<open>{}.get('repo_count', 0)\<close> is 0
  when the bundle has no such fragment; the comparison of \<open>None\<close> with 0 raises
  \<open>TypeError\<close>. Every other part of the prompt formats values of the bundle into text,
  which cannot raise.
\<close>

definition github_context :: "github option \<Rightarrow> error + string" where
  "github_context github_data =
     (case github_data of
        None \<Rightarrow> Inr []
      | Some g \<Rightarrow>
          (case repo_count g of
             None \<Rightarrow> Inl TypeError
           | Some n \<Rightarrow>
               if n > 0
               then Inr (''Repositories: '' @ str_int n @ [CHR 0x0A] @
                         ''Total Stars: '' @ str_int (total_stars g) @ [CHR 0x0A] @
                         ''Languages: '' @ join '', '' (languages g) @ [CHR 0x0A])
               else Inr []))"

text \<open>
  \<open>llm_research_agent\<close>. The prompt is built from the evidence, before the \<open>try\<close>, and
  sent; the reply is an input of the model (\<open>groq\<close>). What the agent returns is the
  parsed reply, whatever JSON value it is, or the result of the fallback heuristic, which
  is called after the \<open>try\<close>.
\<close>

definition llm_research_agent ::
  "(string \<Rightarrow> json option) \<Rightarrow> (nat \<Rightarrow> llm_attempt) \<Rightarrow> (string list \<Rightarrow> string list) \<Rightarrow>
   string \<Rightarrow> search_data \<Rightarrow> error + json" where
  "llm_research_agent json_loads groq set_list company_name search_data =
     (case github_context (github_activity search_data) of
        Inl e \<Rightarrow> Inl e
      | Inr enhanced_context \<Rightarrow>
          (case call_groq_llm json_loads groq of
             Some llm_response \<Rightarrow>
               if llm_response \<noteq> []
               then (case json_loads llm_response of
                       Some llm_data \<Rightarrow> Inr llm_data
                     | None \<Rightarrow> fallback_json set_list company_name search_data)
               else fallback_json set_list company_name search_data
           | None \<Rightarrow> fallback_json set_list company_name search_data))"

text \<open>
  \<open>website_analysis_agent\<close>. The fetch raises or returns a status code and the page: its
  lowercased text, the matches of the five pricing patterns in their order (the result of
  \<open>re.findall\<close> for each), and the content of the description meta tag when there is one.
\<close>

record site_page =
  page_text :: string
  price_matches :: "string list list"
  meta_description :: "string option"

fun pricing_loop :: "string list list \<Rightarrow> json dict \<Rightarrow> json dict" where
  "pricing_loop [] website_data = website_data"
| "pricing_loop (matches # rest) website_data =
     (if matches \<noteq> [] then dict_set ''pricing'' (JStr (join '', '' (take 3 matches))) website_data
      else pricing_loop rest website_data)"

definition website_analysis_agent :: "string \<Rightarrow> error + nat \<times> site_page \<Rightarrow> json dict" where
  "website_analysis_agent website_url fetched =
     (let website_data =
            [(''website'', JStr website_url),
             (''business_model'', JStr ''Unknown''),
             (''pricing'', JStr ''Unknown''),
             (''product'', JStr ''Unknown''),
             (''api_integration'', JStr ''Unknown'')]
      in case fetched of
           Inl e \<Rightarrow> website_data
         | Inr (status_code, page) \<Rightarrow>
             if status_code = 200 then
               (let page_text = page_text page;
                    website_data =
                      (if any_in [''saas'', ''software as a service'', ''subscription''] page_text
                       then dict_set ''business_model'' (JStr ''SaaS'') website_data
                       else if any_in [''marketplace'', ''platform''] page_text
                       then dict_set ''business_model'' (JStr ''Platform'') website_data
                       else if any_in [''consulting'', ''services''] page_text
                       then dict_set ''business_model'' (JStr ''Services'') website_data
                       else website_data);
                    website_data = pricing_loop (price_matches page) website_data;
                    website_data =
                      (if any_in [''api'', ''developer'', ''integration''] page_text
                       then dict_set ''api_integration'' (JStr ''Yes'') website_data
                       else website_data);
                    website_data =
                      (case meta_description page of
                         Some content \<Rightarrow> dict_set ''product'' (JStr (take 200 content)) website_data
                       | None \<Rightarrow> website_data)
                in website_data)
             else website_data)"

text \<open>
  \<open>funding_research_agent\<close>: one search per query, each raising or returning a status code
  and the lowercased text of the page. A later query overwrites what an earlier one set.
\<close>

definition funding_from_text :: "string \<Rightarrow> json dict \<Rightarrow> json dict" where
  "funding_from_text text_content funding_data =
     (if str_in ''series a'' text_content
      then dict_set ''stage'' (JStr ''Growth'')
             (dict_set ''fundraising_stage'' (JStr ''Series A'') funding_data)
      else if str_in ''series b'' text_content
      then dict_set ''stage'' (JStr ''Growth'')
             (dict_set ''fundraising_stage'' (JStr ''Series B'') funding_data)
      else if str_in ''series c'' text_content
      then dict_set ''stage'' (JStr ''Established'')
             (dict_set ''fundraising_stage'' (JStr ''Series C'') funding_data)
      else if str_in ''seed'' text_content
      then dict_set ''stage'' (JStr ''Startup'')
             (dict_set ''fundraising_stage'' (JStr ''Seed'') funding_data)
      else if str_in ''pre-seed'' text_content
      then dict_set ''stage'' (JStr ''Startup'')
             (dict_set ''fundraising_stage'' (JStr ''Pre-seed'') funding_data)
      else funding_data)"

fun funding_query_loop :: "(error + nat \<times> string) list \<Rightarrow> json dict \<Rightarrow> json dict" where
  "funding_query_loop [] funding_data = funding_data"
| "funding_query_loop (fetched # rest) funding_data =
     funding_query_loop rest
       (case fetched of
          Inl e \<Rightarrow> funding_data
        | Inr (status_code, text_content) \<Rightarrow>
            if status_code = 200 then funding_from_text text_content funding_data
            else funding_data)"

definition funding_research_agent :: "(nat \<Rightarrow> error + nat \<times> string) \<Rightarrow> json dict" where
  "funding_research_agent fetch =
     funding_query_loop (map fetch [0..<3])
       [(''fundraising_stage'', JStr ''Unknown''), (''stage'', JStr ''Unknown'')]"

text \<open>
  \<open>competition_analysis_agent\<close>: one search per query; of a page the model keeps the
  matches of the three partnership patterns and of the three user-metric patterns.
\<close>

record competition_page =
  partnership_matches :: "string list list"
  user_matches :: "string list list"

fun user_pattern_loop :: "string list list \<Rightarrow> json dict \<Rightarrow> json dict" where
  "user_pattern_loop [] competition_data = competition_data"
| "user_pattern_loop (matches # rest) competition_data =
     (if matches \<noteq> []
      then dict_set ''user_base_growth_rate'' (JStr (join '', '' (take 2 matches))) competition_data
      else user_pattern_loop rest competition_data)"

definition competition_from_page :: "competition_page \<Rightarrow> json dict \<Rightarrow> json dict" where
  "competition_from_page page competition_data =
     (let partnerships = concat (map (take 3) (partnership_matches page));
          competition_data =
            (if partnerships \<noteq> []
             then dict_set ''partnerships_integrations'' (JStr (join '', '' partnerships))
                    competition_data
             else competition_data)
      in user_pattern_loop (user_matches page) competition_data)"

fun competition_query_loop ::
  "(error + nat \<times> competition_page) list \<Rightarrow> json dict \<Rightarrow> json dict" where
  "competition_query_loop [] competition_data = competition_data"
| "competition_query_loop (fetched # rest) competition_data =
     competition_query_loop rest
       (case fetched of
          Inl e \<Rightarrow> competition_data
        | Inr (status_code, page) \<Rightarrow>
            if status_code = 200 then competition_from_page page competition_data
            else competition_data)"

definition competition_analysis_agent ::
  "(nat \<Rightarrow> error + nat \<times> competition_page) \<Rightarrow> json dict" where
  "competition_analysis_agent fetch =
     competition_query_loop (map fetch [0..<2])
       [(''partnerships_integrations'', JStr ''Unknown''),
        (''user_base_growth_rate'', JStr ''Unknown'')]"

section \<open>Research: building the profile\<close>

text \<open>
  \<open>profile.update(v)\<close> for a JSON value \<open>v\<close>, as Python's \<open>dict.update\<close> does it. A
  dictionary is merged. Any other value is iterated as a sequence of key-value pairs: each
  element is itself turned into a sequence (\<open>TypeError\<close> when it is not iterable), must have
  length 2 (\<open>ValueError\<close> otherwise), and its first item must be hashable (\<open>TypeError\<close> for a
  list or a dictionary). The model of the profile holds the entries with string keys, so an
  entry stored under a number, a boolean or \<open>null\<close> leaves it as it is.
\<close>

definition seq_items :: "json \<Rightarrow> error + json list" where
  "seq_items x =
     (case x of
        JList ys \<Rightarrow> Inr ys
      | JStr s \<Rightarrow> Inr (map (\<lambda>c. JStr [c]) s)
      | JDict kvs \<Rightarrow> Inr (map (\<lambda>(k, v). JStr k) kvs)
      | _ \<Rightarrow> Inl TypeError)"

definition set_item :: "json dict \<Rightarrow> json \<Rightarrow> json \<Rightarrow> error + json dict" where
  "set_item d k v =
     (case k of
        JStr s \<Rightarrow> Inr (dict_set s v d)
      | JList ys \<Rightarrow> Inl TypeError
      | JDict kvs \<Rightarrow> Inl TypeError
      | _ \<Rightarrow> Inr d)"

fun update_from_seq :: "json dict \<Rightarrow> json list \<Rightarrow> error + json dict" where
  "update_from_seq d [] = Inr d"
| "update_from_seq d (x # xs) =
     (case seq_items x of
        Inl e \<Rightarrow> Inl e
      | Inr items \<Rightarrow>
          (case items of
             [k, v] \<Rightarrow>
               (case set_item d k v of
                  Inl e \<Rightarrow> Inl e
                | Inr d' \<Rightarrow> update_from_seq d' xs)
           | _ \<Rightarrow> Inl ValueError))"

definition py_update :: "json dict \<Rightarrow> json \<Rightarrow> error + json dict" where
  "py_update d v =
     (case v of
        JDict kvs \<Rightarrow> Inr (dict_update d kvs)
      | JList xs \<Rightarrow> update_from_seq d xs
      | JStr s \<Rightarrow> update_from_seq d (map (\<lambda>c. JStr [c]) s)
      | _ \<Rightarrow> Inl TypeError)"

text \<open>
  Everything outside the program that one run of \<open>research_single_company\<close> meets: the
  clock, the outcomes of the adapter calls, of the website fetch, of the attempts on the
  language model, of the funding and competition searches, and the order in which the
  interpreter lists a set.
\<close>

record world =
  clock :: string
  adapter_outcomes :: adapters
  site_fetch :: "error + nat \<times> site_page"
  groq_attempts :: "nat \<Rightarrow> llm_attempt"
  set_order :: "string list \<Rightarrow> string list"
  funding_fetch :: "nat \<Rightarrow> error + nat \<times> string"
  competition_fetch :: "nat \<Rightarrow> error + nat \<times> competition_page"

text \<open>The eighteen enrichment attributes of a profile, in the order of its literal.\<close>

definition attribute_keys :: "string list" where
  "attribute_keys =
     [''business_model'', ''ai_powered_legal_chatbot'', ''stage'', ''fundraising_stage'',
      ''multilingual_support'', ''mobile_web_accessibility'', ''api_integration'',
      ''free_tier'', ''subscription_based'', ''pricing'', ''target_audience'',
      ''user_base_growth_rate'', ''partnerships_integrations'', ''coverage'', ''product'',
      ''founding_team_rating'', ''direct_indirect'', ''comment'']"

text \<open>The literal that \<open>profile\<close> starts from in \<open>research_single_company\<close>.\<close>

definition initial_profile :: "string \<Rightarrow> json \<Rightarrow> string \<Rightarrow> json dict" where
  "initial_profile company_name company now =
     [(''competitor'', JStr company_name),
      (''discovery_info'', company),
      (''research_timestamp'', JStr now),
      (''website'', JStr []),
      (''business_model'', JStr []),
      (''ai_powered_legal_chatbot'', JStr []),
      (''stage'', JStr []),
      (''fundraising_stage'', JStr []),
      (''multilingual_support'', JStr []),
      (''mobile_web_accessibility'', JStr []),
      (''api_integration'', JStr []),
      (''free_tier'', JStr []),
      (''subscription_based'', JStr []),
      (''pricing'', JStr []),
      (''target_audience'', JStr []),
      (''user_base_growth_rate'', JStr []),
      (''partnerships_integrations'', JStr []),
      (''coverage'', JStr []),
      (''product'', JStr []),
      (''founding_team_rating'', JStr []),
      (''direct_indirect'', JStr []),
      (''comment'', JStr [])]"

text \<open>
  \<open>research_single_company\<close>. \<open>company\<close> is the candidate dictionary as loaded from the
  companies file and \<open>company_name\<close> its \<open>name\<close> entry, a string in every file that the
  discovery writes. No statement of it is in a \<open>try\<close>: what the language-model agent
  raises and what the merge of its data raises leaves the function. Its caller,
  \<open>research_all_companies\<close>, catches that and goes on with the next company, without a
  profile for this one.
\<close>

definition research_single_company ::
  "(string \<Rightarrow> json option) \<Rightarrow> world \<Rightarrow> string \<Rightarrow> json \<Rightarrow> error + json dict" where
  "research_single_company json_loads w company_name company =
     (let profile = initial_profile company_name company (clock w);
          search_data = web_search_agent (adapter_outcomes w);
          profile =
            (if website search_data \<noteq> []
             then dict_update profile
                    (website_analysis_agent (website search_data) (site_fetch w))
             else profile)
      in case llm_research_agent json_loads (groq_attempts w) (set_order w) company_name
                search_data of
           Inl e \<Rightarrow> Inl e
         | Inr llm_data \<Rightarrow>
             (case py_update profile llm_data of
                Inl e \<Rightarrow> Inl e
              | Inr profile \<Rightarrow>
                  (let funding_data = funding_research_agent (funding_fetch w);
                       profile = dict_update profile funding_data;
                       competition_data = competition_analysis_agent (competition_fetch w);
                       profile = dict_update profile competition_data
                   in Inr profile)))"

section \<open>The stage rule in the words of the specification\<close>

text \<open>
  The funding stage as the specification describes it: from the text of the first news
  article that has a funding term (series c or d, then series a or b, then seed), and when
  no article has one, from the incorporation year against the reference year 2025.
\<close>

definition spec_news_stage :: "string \<Rightarrow> string" where
  "spec_news_stage text =
     (if str_in ''series c'' text \<or> str_in ''series d'' text then ''Established''
      else if str_in ''series a'' text \<or> str_in ''series b'' text then ''Growth''
      else if str_in ''seed'' text then ''Startup''
      else ''Unknown'')"

definition spec_registry_stage :: "int \<Rightarrow> string" where
  "spec_registry_stage inc_year =
     (if 2025 - inc_year \<ge> 8 then ''Established''
      else if 2025 - inc_year \<ge> 4 then ''Growth''
      else ''Startup'')"

definition spec_stage :: "search_data \<Rightarrow> string" where
  "spec_stage search_data =
     (case find (\<lambda>a. any_in funding_terms (article_text a)) (news_mentions search_data) of
        Some a \<Rightarrow> spec_news_stage (article_text a)
      | None \<Rightarrow>
          (case corporate_data search_data of
             None \<Rightarrow> ''Unknown''
           | Some corp \<Rightarrow>
               (case py_int (take 4 (incorporation_date corp)) of
                  None \<Rightarrow> ''Unknown''
                | Some inc_year \<Rightarrow> spec_registry_stage inc_year)))"

text \<open>Example bundles: no evidence at all, one news item on a funding round, a registry
  record with an incorporation year.\<close>

definition sd_empty :: search_data where
  "sd_empty = \<lparr>website = [], search_results = [], news_mentions = [],
          github_activity = None, corporate_data = None, tech_mentions = []\<rparr>"

definition sd_series_b :: search_data where
  "sd_series_b = sd_empty\<lparr>news_mentions :=
      [\<lparr>art_title = ''Acme raised a Series B'', art_description = []\<rparr>]\<rparr>"

definition sd_inc_2015 :: search_data where
  "sd_inc_2015 = sd_empty\<lparr>corporate_data :=
      Some \<lparr>registered_name = ''Acme GmbH'', jurisdiction = Some ''de'',
            incorporation_date = ''2015'', status = ''Active''\<rparr>\<rparr>"

section \<open>Null values in the evidence bundle\<close>

text \<open>
  The two numbers of the payload that later code computes with: the repository count of the
  code-hosting fragment and the points of the discussions. A bundle has a null count when
  its code-hosting fragment carries \<open>null\<close> for it, and null points when some
  discussion carries \<open>null\<close> for them.
\<close>

definition null_repo_count :: "search_data \<Rightarrow> bool" where
  "null_repo_count sd =
     (case github_activity sd of Some g \<Rightarrow> repo_count g = None | None \<Rightarrow> False)"

definition null_points :: "search_data \<Rightarrow> bool" where
  "null_points sd = (None \<in> set (map hn_points (tech_mentions sd)))"

text \<open>The entry of a key in the dictionary that a call returned, and the error of a call
  that raised.\<close>

definition returned_entry :: "string \<Rightarrow> error + 'v dict \<Rightarrow> error + 'v option" where
  "returned_entry k r = (case r of Inl e \<Rightarrow> Inl e | Inr d \<Rightarrow> Inr (dict_get d k))"

section \<open>Adding a keyword to a text source\<close>

text \<open>
  The text sources that the AI-capability block reads: the company name, the search text,
  the title and description of a news article, the name and description of a repository.
  \<open>add_keyword\<close> inserts a keyword at a position of one of them (the index picks the
  article or the repository; out of range, nothing changes). A keyword qualifies for a
  source when, lowercased, it is one of the terms that the block looks for in that source.
\<close>

datatype place = InName | InSearchText | InNewsTitle nat | InNewsDescription nat
  | InRepoName nat | InRepoDescription nat

definition insert_at :: "nat \<Rightarrow> string \<Rightarrow> string \<Rightarrow> string" where
  "insert_at pos kw s = take pos s @ kw @ drop pos s"

definition map_at :: "nat \<Rightarrow> ('a \<Rightarrow> 'a) \<Rightarrow> 'a list \<Rightarrow> 'a list" where
  "map_at i f xs = (if i < length xs then xs[i := f (xs ! i)] else xs)"

definition place_terms :: "place \<Rightarrow> string list" where
  "place_terms pl =
     (case pl of
        InName \<Rightarrow> name_ai_terms
      | InSearchText \<Rightarrow> search_ai_terms
      | InNewsTitle i \<Rightarrow> news_ai_terms
      | InNewsDescription i \<Rightarrow> news_ai_terms
      | InRepoName i \<Rightarrow> repo_ai_terms
      | InRepoDescription i \<Rightarrow> repo_ai_terms)"

definition qualifies :: "place \<Rightarrow> string \<Rightarrow> bool" where
  "qualifies pl kw = (lower kw \<in> set (place_terms pl))"

definition add_keyword ::
  "place \<Rightarrow> nat \<Rightarrow> string \<Rightarrow> string \<times> search_data \<Rightarrow> string \<times> search_data" where
  "add_keyword pl pos kw bundle =
     (case bundle of (company_name, sd) \<Rightarrow>
        (case pl of
           InName \<Rightarrow> (insert_at pos kw company_name, sd)
         | InSearchText \<Rightarrow>
             (company_name, sd\<lparr>search_results := insert_at pos kw (search_results sd)\<rparr>)
         | InNewsTitle i \<Rightarrow>
             (company_name,
              sd\<lparr>news_mentions :=
                   map_at i (\<lambda>a. a\<lparr>art_title := insert_at pos kw (art_title a)\<rparr>)
                     (news_mentions sd)\<rparr>)
         | InNewsDescription i \<Rightarrow>
             (company_name,
              sd\<lparr>news_mentions :=
                   map_at i (\<lambda>a. a\<lparr>art_description := insert_at pos kw (art_description a)\<rparr>)
                     (news_mentions sd)\<rparr>)
         | InRepoName i \<Rightarrow>
             (company_name,
              sd\<lparr>github_activity :=
                   map_option
                     (\<lambda>g. g\<lparr>public_repos :=
                             map_at i (\<lambda>r. r\<lparr>repo_name := insert_at pos kw (repo_name r)\<rparr>)
                               (public_repos g)\<rparr>)
                     (github_activity sd)\<rparr>)
         | InRepoDescription i \<Rightarrow>
             (company_name,
              sd\<lparr>github_activity :=
                   map_option
                     (\<lambda>g. g\<lparr>public_repos :=
                             map_at i
                               (\<lambda>r. r\<lparr>repo_description := insert_at pos kw (repo_description r)\<rparr>)
                               (public_repos g)\<rparr>)
                     (github_activity sd)\<rparr>)))"

text \<open>The order of the three tiers, and the indicator score in the words of the
  specification: weight 2 for the name, weight 1 for the search text, 1 for the first
  matching news article, 1 for the first matching repository.\<close>

definition tier_rank :: "string \<Rightarrow> nat" where
  "tier_rank label =
     (if label = ''Yes - multiple AI indicators found'' then 2
      else if label = ''Possible - some AI indicators found'' then 1
      else 0)"

definition spec_ai_points :: "string \<Rightarrow> search_data \<Rightarrow> int" where
  "spec_ai_points company_name sd =
     (if any_in name_ai_terms (lower company_name) then 2 else 0)
     + (if any_in search_ai_terms (lower (search_results sd)) then 1 else 0)
     + (if list_ex (\<lambda>a. any_in news_ai_terms (article_text a)) (news_mentions sd) then 1 else 0)
     + (if list_ex (\<lambda>r. any_in repo_ai_terms (repo_text r))
             (case github_activity sd of None \<Rightarrow> [] | Some g \<Rightarrow> public_repos g)
        then 1 else 0)"

section \<open>The coverage rule in the words of the specification\<close>

text \<open>
  The region mapped from a registry jurisdiction code, letter case ignored: Germany for a
  code with \<open>de\<close> or \<open>german\<close> in it, otherwise Europe for a code with one of
  \<open>gb\<close>, \<open>fr\<close>, \<open>es\<close>, \<open>it\<close>, \<open>nl\<close> in it, otherwise Global/US for a code with
  \<open>us\<close> in it, otherwise none. A registry fragment without a jurisdiction maps to none.
\<close>

definition spec_jurisdiction_region :: "string \<Rightarrow> string list" where
  "spec_jurisdiction_region code =
     (if list_ex (\<lambda>t. str_in t (lower code)) [''de'', ''german''] then [''Germany'']
      else if list_ex (\<lambda>t. str_in t (lower code)) [''gb'', ''fr'', ''es'', ''it'', ''nl'']
      then [''Europe'']
      else if str_in ''us'' (lower code) then [''Global/US'']
      else [])"

definition spec_registry_regions :: "corporate option \<Rightarrow> string list" where
  "spec_registry_regions corp_data =
     (case corp_data of
        None \<Rightarrow> []
      | Some corp \<Rightarrow>
          (case jurisdiction corp of None \<Rightarrow> [] | Some code \<Rightarrow> spec_jurisdiction_region code))"

text \<open>
  The regions whose keywords occur in a text, every one of them, in the order Germany,
  Europe, Global: what "the keyword matches for region names" are.
\<close>

definition spec_text_regions :: "string \<Rightarrow> string list" where
  "spec_text_regions all_text =
     (if any_in [''german'', ''germany'', ''deutsch''] all_text then [''Germany''] else [])
     @ (if any_in [''europe'', ''european'', ''eu''] all_text then [''Europe''] else [])
     @ (if any_in [''global'', ''worldwide'', ''international''] all_text then [''Global''] else [])"






definition sd_registered_de :: search_data where
  "sd_registered_de = sd_empty\<lparr>search_results := ''a german and european company'',
      corporate_data := Some \<lparr>registered_name = ''Acme GmbH'', jurisdiction = Some ''de'',
            incorporation_date = ''2015'', status = ''Active''\<rparr>\<rparr>"


section \<open>The contract of the language model in the words of the specification\<close>

text \<open>
  The declared enrichment keys are the eleven fields of the prompt. A reply conforms to the
  strict contract when it is a JSON object with exactly these keys.
\<close>

definition llm_schema_keys :: "string list" where
  "llm_schema_keys =
     [''ai_powered_legal_chatbot'', ''stage'', ''multilingual_support'',
      ''mobile_web_accessibility'', ''free_tier'', ''subscription_based'', ''target_audience'',
      ''coverage'', ''founding_team_rating'', ''direct_indirect'', ''comment'']"

definition spec_conforms :: "json \<Rightarrow> bool" where
  "spec_conforms v =
     (case v of JDict kvs \<Rightarrow> set (dict_keys kvs) = set llm_schema_keys | _ \<Rightarrow> False)"

text \<open>
  What one attempt means for the retry loop: its content is accepted, the next attempt is
  made, or the call is given up. The reply of the language model is the parsed content of
  the first attempt that is not retried, if that attempt is accepted.
\<close>

datatype verdict = Accept string | Retry | GiveUp

definition spec_verdict :: "(string \<Rightarrow> json option) \<Rightarrow> llm_attempt \<Rightarrow> verdict" where
  "spec_verdict json_loads a =
     (case a of
        Response status_code body \<Rightarrow>
          if status_code = 200 then
            (case body of
               Some content \<Rightarrow> if json_loads content = None then Retry else Accept content
             | None \<Rightarrow> Retry)
          else if status_code = 429 \<or> status_code \<ge> 500 then Retry
          else GiveUp
      | _ \<Rightarrow> Retry)"

definition spec_llm_reply :: "(string \<Rightarrow> json option) \<Rightarrow> (nat \<Rightarrow> llm_attempt) \<Rightarrow> json option" where
  "spec_llm_reply json_loads groq =
     (case dropWhile (\<lambda>v. v = Retry) (map (\<lambda>i. spec_verdict json_loads (groq i)) [0..<3]) of
        Accept content # rest \<Rightarrow> if content = [] then None else json_loads content
      | _ \<Rightarrow> None)"

text \<open>
  For the examples: \<open>json.loads\<close> on the two texts \<open>{}\<close> and \<open>5\<close>; every other text
  it answers as it answers a text that is not JSON.
\<close>

definition json_loads_sample :: "string \<Rightarrow> json option" where
  "json_loads_sample s =
     (if s = ''{}'' then Some (JDict []) else if s = ''5'' then Some (JNum 5) else None)"

section \<open>The evidence bundle in the words of the specification\<close>

text \<open>
  A missing fragment is an empty or default value: the bundle holds, for every adapter,
  what the adapter returned, or the default when it raised. The second web search is made
  only when the first left both the website and the search text empty.
\<close>

definition fragment_or :: "'a \<Rightarrow> error + 'a \<Rightarrow> 'a" where
  "fragment_or d outcome = (case outcome of Inr fragment \<Rightarrow> fragment | Inl e \<Rightarrow> d)"

definition spec_bundle :: "adapters \<Rightarrow> search_data" where
  "spec_bundle ad =
     (let (w, r) = fragment_or ([], []) (duckduckgo_search ad);
          (w, r) = (if w = [] \<and> r = [] then fragment_or ([], []) (google_scraping_fallback ad)
                    else (w, r));
          merged = \<lparr>website = w, search_results = r,
                     news_mentions = fragment_or [] (google_news_search ad),
                     github_activity = fragment_or None (map_sum id Some (github_search ad)),
                     corporate_data = fragment_or None (opencorporates_search ad),
                     tech_mentions = fragment_or [] (hacker_news_search ad)\<rparr>
      in merged\<lparr>search_results := compile_content merged\<rparr>)"

text \<open>
  When the profile build of a company aborts: the bundle carries a null repository count,
  or the language model gave no usable reply and the bundle carries null discussion
  points, or the language model's reply parsed to a JSON value that a dictionary cannot be
  updated from.
\<close>

definition spec_aborts :: "(string \<Rightarrow> json option) \<Rightarrow> world \<Rightarrow> bool" where
  "spec_aborts json_loads w =
     (let sd = spec_bundle (adapter_outcomes w)
      in null_repo_count sd \<or>
         (case spec_llm_reply json_loads (groq_attempts w) of
            None \<Rightarrow> null_points sd
          | Some llm_data \<Rightarrow> isl (py_update [] llm_data)))"


text \<open>
  Example runs and an example candidate as the companies file holds it: a run in which
  every call to the outside fails; the same run with the language model replying the
  number 5; adapter outcomes with a discussion and a code-hosting summary found, and with
  a discussion whose points are \<open>null\<close>.
\<close>

definition all_fail :: world where
  "all_fail = \<lparr>clock = ''2025-01-01T00:00:00'',
     adapter_outcomes =
       \<lparr>duckduckgo_search = Inl RequestException, google_news_search = Inl RequestException,
        hacker_news_search = Inl RequestException, opencorporates_search = Inl RequestException,
        github_search = Inl RequestException, google_scraping_fallback = Inl RequestException\<rparr>,
     site_fetch = Inl RequestException,
     groq_attempts = (\<lambda>i. RaisedTimeout),
     set_order = remdups,
     funding_fetch = (\<lambda>i. Inl RequestException),
     competition_fetch = (\<lambda>i. Inl RequestException)\<rparr>"



definition found_null_points :: adapters where
  "found_null_points = (adapter_outcomes all_fail)
     \<lparr>hacker_news_search :=
        Inr [\<lparr>hn_title = Some ''Acme launches'', hn_text = [], hn_points = None\<rparr>]\<rparr>"

definition company_acme :: json where
  "company_acme = JDict [(''name'', JStr ''Acme''), (''source'', JStr ''Startup Database''),
     (''category'', JStr ''legal_tech''), (''confidence'', JStr ''low''),
     (''relevance'', JStr ''peripheral'')]"

section \<open>Filled and blank attributes of a profile\<close>

text \<open>
  An attribute is filled when its value is a non-empty string (a detected value or the
  sentinel \<open>Unknown\<close>), and blank when it is the empty string that the profile literal
  starts with.
\<close>

definition nonempty_str :: "json \<Rightarrow> bool" where
  "nonempty_str v = (case v of JStr s \<Rightarrow> s \<noteq> [] | _ \<Rightarrow> False)"

definition filled :: "json dict \<Rightarrow> string \<Rightarrow> bool" where
  "filled profile k = (case dict_get profile k of Some v \<Rightarrow> nonempty_str v | None \<Rightarrow> False)"

definition blank :: "json dict \<Rightarrow> string \<Rightarrow> bool" where
  "blank profile k = (dict_get profile k = Some (JStr []))"

text \<open>
  The keys of a profile beside the eighteen attributes, and the attributes that only the
  website analysis sets. The attributes that the fallback heuristic sets are the eleven of
  \<open>llm_schema_keys\<close>.
\<close>

definition identity_keys :: "string list" where
  "identity_keys = [''competitor'', ''discovery_info'', ''research_timestamp'', ''website'']"

definition website_keys :: "string list" where
  "website_keys = [''business_model'', ''pricing'', ''product'', ''api_integration'']"

text \<open>The website that the web search found for a run; empty when it found none.\<close>

definition found_website :: "world \<Rightarrow> string" where
  "found_website w = website (web_search_agent (adapter_outcomes w))"

text \<open>
  What \<open>re.findall\<close> guarantees for the patterns of the agents: none of them matches the
  empty string, so every match (and every captured group) is a non-empty string.
\<close>

definition competition_matches_nonempty :: "error + nat \<times> competition_page \<Rightarrow> bool" where
  "competition_matches_nonempty fetched =
     (case fetched of
        Inr (status_code, page) \<Rightarrow>
          (\<forall>ms \<in> set (partnership_matches page) \<union> set (user_matches page).
             \<forall>m \<in> set ms. m \<noteq> [])
      | Inl e \<Rightarrow> True)"

definition site_matches_nonempty :: "error + nat \<times> site_page \<Rightarrow> bool" where
  "site_matches_nonempty fetched =
     (case fetched of
        Inr (status_code, page) \<Rightarrow> (\<forall>ms \<in> set (price_matches page). \<forall>m \<in> set ms. m \<noteq> [])
      | Inl e \<Rightarrow> True)"

definition matches_nonempty :: "world \<Rightarrow> bool" where
  "matches_nonempty w =
     ((\<forall>i. competition_matches_nonempty (competition_fetch w i))
      \<and> site_matches_nonempty (site_fetch w))"

text \<open>An invariant of a dictionary: its set of keys, and a property of every entry.\<close>

definition dict_inv :: "string set \<Rightarrow> (string \<Rightarrow> 'v \<Rightarrow> bool) \<Rightarrow> 'v dict \<Rightarrow> bool" where
  "dict_inv K P d = (set (dict_keys d) = K \<and> (\<forall>(k, v) \<in> set d. P k v))"

text \<open>Example runs: every source adapter fails but the web search, which finds a
  website, and the fetch of the website and the language model fail; every call fails but
  the one to the language model, which replies the empty JSON object.\<close>

definition website_found :: world where
  "website_found = all_fail\<lparr>adapter_outcomes :=
     (adapter_outcomes all_fail)\<lparr>duckduckgo_search := Inr (''https://acme.example'', [])\<rparr>\<rparr>"

definition reply_empty_object :: world where
  "reply_empty_object = all_fail\<lparr>groq_attempts := (\<lambda>i. Response 200 (Some ''{}''))\<rparr>"

section \<open>Evaluation rules\<close>

lemmas str_eval = normalize_name_def lower_def lower_char_def strip_def strip_special_def
  is_space_def is_word_def char_of_def bit_Suc_0_iff

section \<open>Name normalisation\<close>

lemma lower_char_idem: "lower_char (lower_char c) = lower_char c"
  by (simp add: lower_char_def Let_def)

lemma is_space_lower: "is_space (lower_char c) = is_space c"
  by (simp add: lower_char_def is_space_def Let_def)

lemma is_word_lower: "is_word (lower_char c) = is_word c"
  by (simp add: lower_char_def is_word_def Let_def)

lemma lower_char_blank: "lower_char CHR '' '' = CHR '' ''"
  by (simp add: lower_char_def)

lemma is_space_blank: "is_space CHR '' ''"
  by (simp add: is_space_def)

lemma lower_lower: "lower (lower s) = lower s"
  by (simp add: lower_def lower_char_idem)

lemma lower_dropWhile: "lower (dropWhile is_space s) = dropWhile is_space (lower s)"
  by (induction s) (simp_all add: lower_def is_space_lower)

lemma lower_strip: "lower (strip s) = strip (lower s)"
proof -
  have "lower (rev t) = rev (lower t)" for t
    by (simp add: lower_def rev_map)
  then show ?thesis
    by (simp add: strip_def lower_dropWhile)
qed

lemma lower_collapse_ws: "lower (collapse_ws s) = collapse_ws (lower s)"
proof (induction s rule: collapse_ws.induct)
  case 1
  show ?case by (simp add: lower_def)
next
  case (2 c cs)
  have eq: "map lower_char (dropWhile is_space cs) = dropWhile is_space (map lower_char cs)"
    using lower_dropWhile [of cs] by (simp add: lower_def)
  from 2 show ?case
    by (simp add: lower_def is_space_lower lower_char_blank eq)
qed

lemma dropWhile_collapse_ws:
  "dropWhile is_space s = s \<Longrightarrow> dropWhile is_space (collapse_ws s) = collapse_ws s"
proof (cases s)
  case Nil
  then show ?thesis by simp
next
  case (Cons c cs)
  assume "dropWhile is_space s = s"
  with Cons have "\<not> is_space c"
    using length_dropWhile_le [of is_space cs]
    by (auto split: if_splits)
  with Cons show ?thesis by simp
qed

lemma collapse_ws_idem: "collapse_ws (collapse_ws s) = collapse_ws s"
proof (induction s rule: collapse_ws.induct)
  case 1
  show ?case by simp
next
  case (2 c cs)
  show ?case
  proof (cases "is_space c")
    case True
    have "dropWhile is_space (collapse_ws (dropWhile is_space cs)) = collapse_ws (dropWhile is_space cs)"
      by (rule dropWhile_collapse_ws) simp
    with True 2 show ?thesis
      by (simp add: is_space_blank)
  next
    case False
    with 2 show ?thesis by simp
  qed
qed


lemma last_dropWhile:
  "dropWhile P xs \<noteq> [] \<Longrightarrow> last (dropWhile P xs) = last xs"
  by (metis last_appendR takeWhile_dropWhile_id)

lemma last_collapse_ws:
  "s \<noteq> [] \<Longrightarrow> \<not> is_space (last s) \<Longrightarrow>
   collapse_ws s \<noteq> [] \<and> last (collapse_ws s) = last s"
proof (induction s rule: collapse_ws.induct)
  case 1
  then show ?case by simp
next
  case (2 c cs)
  show ?case
  proof (cases "is_space c")
    case True
    with "2.prems" have cs: "cs \<noteq> []" "\<not> is_space (last cs)"
      by (auto split: if_splits)
    then have w: "dropWhile is_space cs \<noteq> []"
      by (metis dropWhile_eq_Nil_conv last_in_set)
    then have "last (dropWhile is_space cs) = last cs"
      by (rule last_dropWhile)
    with True w cs "2.IH"(1) show ?thesis
      by simp
  next
    case False
    with 2 show ?thesis
      by (cases cs) auto
  qed
qed

lemma set_collapse_ws: "set (collapse_ws s) \<subseteq> insert CHR '' '' (set s)"
proof (induction s rule: collapse_ws.induct)
  case 1
  show ?case by simp
next
  case (2 c cs)
  have "set (dropWhile is_space cs) \<subseteq> set cs"
    by (auto dest: set_dropWhileD)
  with 2 show ?case by auto
qed

lemma set_strip: "set (strip s) \<subseteq> set s"
  by (auto simp: strip_def dest!: set_dropWhileD)

lemma strip_Nil_or:
  "strip s = [] \<or> (\<not> is_space (hd (strip s)) \<and> \<not> is_space (last (strip s)))"
proof (cases "strip s = []")
  case True
  then show ?thesis by simp
next
  case False
  define w where "w = dropWhile is_space s"
  define r where "r = dropWhile is_space (rev w)"
  have s: "strip s = rev r"
    by (simp add: strip_def w_def r_def)
  with False have r: "r \<noteq> []" by simp
  then have 1: "\<not> is_space (hd r)"
    unfolding r_def by (rule hd_dropWhile)
  have "last r = last (rev w)"
    using r unfolding r_def by (rule last_dropWhile)
  moreover have "w \<noteq> []" using r by (auto simp: r_def)
  ultimately have "last r = hd w"
    by (simp add: last_rev)
  moreover have "\<not> is_space (hd w)"
    using \<open>w \<noteq> []\<close> unfolding w_def by (rule hd_dropWhile)
  ultimately show ?thesis
    using 1 r s by (simp add: hd_rev last_rev)
qed


lemma strip_trimmed:
  "s \<noteq> [] \<Longrightarrow> \<not> is_space (hd s) \<Longrightarrow> \<not> is_space (last s) \<Longrightarrow> strip s = s"
proof -
  assume a: "s \<noteq> []" "\<not> is_space (hd s)" "\<not> is_space (last s)"
  then have 1: "dropWhile is_space s = s"
    by (simp add: dropWhile_eq_self_iff)
  from a have "dropWhile is_space (rev s) = rev s"
    by (simp add: dropWhile_eq_self_iff hd_rev)
  with 1 show ?thesis
    by (simp add: strip_def)
qed

lemma punct_free_normalize: "punct_free (normalize_name x)"
  by (simp add: punct_free_def normalize_name_def strip_special_def list_all_iff)

lemma punct_free_lower: "punct_free x \<Longrightarrow> punct_free (lower x)"
  by (simp add: punct_free_def lower_def list_all_iff is_word_lower is_space_lower)

lemma punct_free_strip: "punct_free x \<Longrightarrow> punct_free (strip x)"
  using set_strip [of x] by (auto simp: punct_free_def list_all_iff)

lemma punct_free_collapse_ws: "punct_free x \<Longrightarrow> punct_free (collapse_ws x)"
  using set_collapse_ws [of x] by (auto simp: punct_free_def list_all_iff is_space_blank)

lemma strip_special_punct_free: "punct_free x \<Longrightarrow> strip_special x = x"
  by (simp add: punct_free_def strip_special_def list_all_iff)

lemma strip_collapse_strip: "strip (collapse_ws (strip x)) = collapse_ws (strip x)"
proof (cases "strip x")
  case Nil
  have "strip [] = []" by (simp add: strip_def)
  with Nil show ?thesis by simp
next
  case (Cons c cs)
  with strip_Nil_or [of x] have ns: "\<not> is_space c" "\<not> is_space (last (c # cs))"
    by auto
  then have "collapse_ws (c # cs) \<noteq> [] \<and> last (collapse_ws (c # cs)) = last (c # cs)"
    by (intro last_collapse_ws) simp_all
  moreover have "hd (collapse_ws (c # cs)) = c"
    using ns by simp
  ultimately have "strip (collapse_ws (c # cs)) = collapse_ws (c # cs)"
    using ns by (intro strip_trimmed) simp_all
  with Cons show ?thesis by simp
qed

lemma normalize_name_fixed:
  assumes "punct_free x"
  shows "normalize_name (normalize_name x) = normalize_name x"
proof -
  define y where "y = collapse_ws (strip (lower x))"
  have pf: "punct_free y"
    unfolding y_def using assms
    by (intro punct_free_collapse_ws punct_free_strip punct_free_lower)
  then have n: "normalize_name x = y"
    by (simp add: normalize_name_def y_def strip_special_punct_free)
  have "lower y = y"
    by (simp add: y_def lower_collapse_ws lower_strip lower_lower)
  moreover have "strip y = y"
    unfolding y_def by (rule strip_collapse_strip)
  moreover have "collapse_ws y = y"
    unfolding y_def by (rule collapse_ws_idem)
  ultimately have "normalize_name y = y"
    using pf by (simp add: normalize_name_def strip_special_punct_free)
  with n show ?thesis by simp
qed

text \<open>
  Claim C4, as amended. The normalisation is idempotent on every name without punctuation,
  and on every name at all a second application reaches a fixed point (a third changes
  nothing). \<open>normalize("Harvey AI")\<close> and \<open>normalize("HARVEY AI")\<close> are both
  \<open>"harvey ai"\<close>, while \<open>normalize("harvey-ai ")\<close> is \<open>"harveyai"\<close>: the hyphen is deleted,
  not turned into a space.
\<close>

theorem normalize_name_idempotent_without_punctuation:
  "(punct_free x \<longrightarrow> normalize_name (normalize_name x) = normalize_name x)
   \<and> normalize_name (normalize_name (normalize_name x)) = normalize_name (normalize_name x)
   \<and> normalize_name ''Harvey AI'' = ''harvey ai''
   \<and> normalize_name ''HARVEY AI'' = ''harvey ai''
   \<and> normalize_name ''harvey-ai '' = ''harveyai''"
proof -
  have "normalize_name ''Harvey AI'' = ''harvey ai''"
    by (simp add: str_eval)
  moreover have "normalize_name ''HARVEY AI'' = ''harvey ai''"
    by (simp add: str_eval)
  moreover have "normalize_name ''harvey-ai '' = ''harveyai''"
    by (simp add: str_eval)
  ultimately show ?thesis
    using normalize_name_fixed [of x] normalize_name_fixed [OF punct_free_normalize, of x]
    by blast
qed

theorem normalize_name_idempotent_without_punctuation_witness:
  "punct_free ''Harvey  AI'' \<and> normalize_name ''Harvey  AI'' = ''harvey ai''
   \<and> normalize_name (normalize_name ''Harvey  AI'') = normalize_name ''Harvey  AI''"
proof -
  have pf: "punct_free ''Harvey  AI''"
    by (simp add: punct_free_def is_word_def is_space_def)
  have "normalize_name ''Harvey  AI'' = ''harvey ai''"
    by (simp add: str_eval)
  with pf normalize_name_idempotent_without_punctuation [of "''Harvey  AI''"]
  show ?thesis by blast
qed

text \<open>
  Claim C4 as stated fails. Punctuation is deleted after whitespace has been collapsed, so
  \<open>"a - b"\<close> normalises to \<open>"a  b"\<close> with two spaces, which a second pass collapses; and
  \<open>"harvey-ai "\<close> does not normalise to the same key as \<open>"Harvey AI"\<close>.
\<close>

theorem normalize_name_not_idempotent:
  "normalize_name ''a - b'' = ''a  b''
   \<and> normalize_name (normalize_name ''a - b'') = ''a b''
   \<and> normalize_name (normalize_name ''a - b'') \<noteq> normalize_name ''a - b''
   \<and> normalize_name ''harvey-ai '' \<noteq> normalize_name ''Harvey AI''"
  by (simp add: str_eval)

section \<open>Deduplication\<close>

lemma dedupe_loop_kept:
  "dedupe_loop seen unique cs =
     unique @ map ((!) cs)
       (filter (\<lambda>i. dedupe_key (cs ! i) \<notin> seen \<and> 2 < length (dedupe_key (cs ! i))
                    \<and> (\<forall>j<i. dedupe_key (cs ! j) \<noteq> dedupe_key (cs ! i)))
          [0..<length cs])"
proof (induction cs arbitrary: seen unique)
  case Nil
  show ?case by simp
next
  case (Cons c rest)
  let ?k = "dedupe_key c"
  have upt: "[0..<length (c # rest)] = 0 # map Suc [0..<length rest]"
    by (simp add: upt_conv_Cons map_Suc_upt del: upt_Suc)
  show ?case
  proof (cases "?k \<notin> seen \<and> 2 < length ?k")
    case True
    have "filter (\<lambda>i. dedupe_key (rest ! i) \<notin> insert ?k seen \<and> 2 < length (dedupe_key (rest ! i))
                    \<and> (\<forall>j<i. dedupe_key (rest ! j) \<noteq> dedupe_key (rest ! i))) [0..<length rest]
        = filter (\<lambda>i. dedupe_key (rest ! i) \<notin> seen \<and> 2 < length (dedupe_key (rest ! i))
                    \<and> (\<forall>j<Suc i. dedupe_key ((c # rest) ! j) \<noteq> dedupe_key (rest ! i))) [0..<length rest]"
      by (rule filter_cong) (auto simp: All_less_Suc2)
    with True show ?thesis
      unfolding upt
      by (simp add: Cons.IH filter_map comp_def dedupe_key_def [symmetric] Let_def)
  next
    case False
    have "filter (\<lambda>i. dedupe_key (rest ! i) \<notin> seen \<and> 2 < length (dedupe_key (rest ! i))
                    \<and> (\<forall>j<i. dedupe_key (rest ! j) \<noteq> dedupe_key (rest ! i))) [0..<length rest]
        = filter (\<lambda>i. dedupe_key (rest ! i) \<notin> seen \<and> 2 < length (dedupe_key (rest ! i))
                    \<and> (\<forall>j<Suc i. dedupe_key ((c # rest) ! j) \<noteq> dedupe_key (rest ! i))) [0..<length rest]"
      using False by (intro filter_cong) (auto simp: All_less_Suc2)
    moreover from False have "dedupe_loop seen unique (c # rest) = dedupe_loop seen unique rest"
      by (auto simp: dedupe_key_def Let_def)
    moreover from False have "\<not> (dedupe_key ((c # rest) ! 0) \<notin> seen
        \<and> 2 < length (dedupe_key ((c # rest) ! 0))
        \<and> (\<forall>j<0. dedupe_key ((c # rest) ! j) \<noteq> dedupe_key ((c # rest) ! 0)))"
      by auto
    ultimately show ?thesis
      unfolding upt
      by (simp add: Cons.IH filter_map comp_def del: nth_Cons_0)
  qed
qed

lemma key_harvey: "dedupe_key (cand ''Harvey AI'') = ''harvey ai''"
  by (simp add: dedupe_key_def cand_def str_eval)

lemma key_harvey2: "dedupe_key (cand ''harvey ai'') = ''harvey ai''"
  by (simp add: dedupe_key_def cand_def str_eval)

lemma key_donotpay: "dedupe_key (cand ''DoNotPay'') = ''donotpay''"
  by (simp add: dedupe_key_def cand_def str_eval)

lemma key_ai: "dedupe_key (cand ''AI'') = ''ai''"
  by (simp add: dedupe_key_def cand_def str_eval)

lemma dedupe_example:
  "deduplicate_companies [cand ''Harvey AI'', cand ''harvey ai'', cand ''DoNotPay'']
     = [cand ''Harvey AI'', cand ''DoNotPay'']"
  by (simp add: deduplicate_companies_def dedupe_key_def [symmetric] key_harvey key_harvey2 key_donotpay)

text \<open>
  Claim C5 as stated fails: the first occurrence of a normalised name of one or two
  characters is not retained.
\<close>

theorem deduplicate_companies_drops_first_occurrence:
  "dedupe_key (cand ''AI'') = ''ai'' \<and> deduplicate_companies [cand ''AI''] = []"
  by (simp add: deduplicate_companies_def dedupe_key_def [symmetric] key_ai)

text \<open>
  Claim C5, as amended. The deduplicated list consists of exactly the candidates that are
  the first with their normalised name and whose normalised name is longer than two
  characters, in the order of the input; every later candidate with the same normalised
  name is dropped. The list \<open>["Harvey AI", "harvey ai", "DoNotPay"]\<close> yields two entries,
  \<open>"Harvey AI"\<close> retained over \<open>"harvey ai"\<close>.
\<close>

theorem deduplicate_companies_first_long_occurrences:
  "deduplicate_companies cs =
     map ((!) cs)
       (filter (\<lambda>i. 2 < length (dedupe_key (cs ! i))
                    \<and> (\<forall>j<i. dedupe_key (cs ! j) \<noteq> dedupe_key (cs ! i)))
          [0..<length cs])
   \<and> deduplicate_companies [cand ''Harvey AI'', cand ''harvey ai'', cand ''DoNotPay'']
     = [cand ''Harvey AI'', cand ''DoNotPay'']"
  using dedupe_loop_kept [of "{}" "[]" cs] dedupe_example
  by (simp add: deduplicate_companies_def)

theorem deduplicate_companies_first_long_occurrences_witness:
  "filter (\<lambda>i. 2 < length (dedupe_key ([cand ''Harvey AI'', cand ''harvey ai'', cand ''DoNotPay''] ! i))
                \<and> (\<forall>j<i. dedupe_key ([cand ''Harvey AI'', cand ''harvey ai'', cand ''DoNotPay''] ! j)
                          \<noteq> dedupe_key ([cand ''Harvey AI'', cand ''harvey ai'', cand ''DoNotPay''] ! i)))
          [0..<length [cand ''Harvey AI'', cand ''harvey ai'', cand ''DoNotPay'']] = [0, 2]
   \<and> deduplicate_companies [cand ''Harvey AI'', cand ''harvey ai'', cand ''DoNotPay'']
       = map ((!) [cand ''Harvey AI'', cand ''harvey ai'', cand ''DoNotPay'']) [0, 2]"
proof -
  let ?cs = "[cand ''Harvey AI'', cand ''harvey ai'', cand ''DoNotPay'']"
  have f: "filter (\<lambda>i. 2 < length (dedupe_key (?cs ! i))
                \<and> (\<forall>j<i. dedupe_key (?cs ! j) \<noteq> dedupe_key (?cs ! i)))
          [0..<length ?cs] = [0, 2]"
    by (simp add: upt_rec [of 0] upt_rec [of 1] upt_rec [of 2] key_harvey key_harvey2 key_donotpay
          All_less_Suc2 numeral_2_eq_2)
  with deduplicate_companies_first_long_occurrences [of ?cs] show ?thesis
    by simp
qed

lemma dedupe_loop_long:
  "\<forall>c\<in>set unique. 2 < length (dedupe_key c) \<Longrightarrow>
   \<forall>c\<in>set (dedupe_loop seen unique cs). 2 < length (dedupe_key c)"
proof (induction cs arbitrary: seen unique)
  case Nil
  then show ?case by simp
next
  case (Cons c rest)
  show ?case
  proof (cases "normalize_name (name c) \<notin> seen \<and> 2 < length (normalize_name (name c))")
    case True
    with Cons.prems have "\<forall>d\<in>set (unique @ [c]). 2 < length (dedupe_key d)"
      by (simp add: dedupe_key_def)
    then have "\<forall>d\<in>set (dedupe_loop (insert (normalize_name (name c)) seen) (unique @ [c]) rest).
                 2 < length (dedupe_key d)"
      by (rule Cons.IH)
    with True show ?thesis by (simp add: Let_def)
  next
    case False
    from Cons.prems have "\<forall>d\<in>set (dedupe_loop seen unique rest). 2 < length (dedupe_key d)"
      by (rule Cons.IH)
    with False show ?thesis by (auto simp: Let_def)
  qed
qed

text \<open>
  Claim C10. A candidate whose normalised name has two characters or fewer never appears
  in the output, also when no other candidate shares that name: \<open>"AI"\<close> beside
  \<open>"DoNotPay"\<close> gives one entry for two distinct normalised names.
\<close>

theorem deduplicate_companies_drops_short_names:
  "(c \<in> set cs \<and> length (dedupe_key c) \<le> 2 \<longrightarrow> c \<notin> set (deduplicate_companies cs))
   \<and> deduplicate_companies [cand ''AI'', cand ''DoNotPay''] = [cand ''DoNotPay'']
   \<and> dedupe_key (cand ''AI'') \<noteq> dedupe_key (cand ''DoNotPay'')
   \<and> length (deduplicate_companies [cand ''AI'', cand ''DoNotPay''])
       < card (dedupe_key ` set [cand ''AI'', cand ''DoNotPay''])"
proof -
  have "\<forall>c\<in>set (deduplicate_companies cs). 2 < length (dedupe_key c)"
    unfolding deduplicate_companies_def by (rule dedupe_loop_long) simp
  then have 1: "c \<in> set cs \<and> length (dedupe_key c) \<le> 2 \<longrightarrow> c \<notin> set (deduplicate_companies cs)"
    by auto
  have 2: "deduplicate_companies [cand ''AI'', cand ''DoNotPay''] = [cand ''DoNotPay'']"
    by (simp add: deduplicate_companies_def dedupe_key_def [symmetric] key_ai key_donotpay)
  have 3: "card (dedupe_key ` set [cand ''AI'', cand ''DoNotPay'']) = 2"
    by (simp add: key_ai key_donotpay)
  from 1 2 3 show ?thesis
    by (simp add: key_ai key_donotpay)
qed

theorem deduplicate_companies_drops_short_names_witness:
  "cand ''AI'' \<in> set [cand ''AI'', cand ''DoNotPay''] \<and> length (dedupe_key (cand ''AI'')) \<le> 2
   \<and> cand ''AI'' \<notin> set (deduplicate_companies [cand ''AI'', cand ''DoNotPay''])"
  using deduplicate_companies_drops_short_names [of "cand ''AI''" "[cand ''AI'', cand ''DoNotPay'']"]
  by (auto simp: key_ai)

section \<open>Classification\<close>

lemma classify_company_eq:
  "description c \<noteq> JsonNull \<Longrightarrow>
   classify_company c =
     Inr (c\<lparr>relevance := Some (spec_relevance c),
            confidence := confidence_level (spec_points c (spec_relevance c))\<rparr>)"
  unfolding classify_company_def spec_relevance_def spec_points_def spec_base_points_def
    spec_bonus_def Let_def
  by (cases "description c") (simp_all split: option.split)

lemma classify_company_null:
  "description c = JsonNull \<Longrightarrow> classify_company c = Inl AttributeError"
  by (simp add: classify_company_def)

lemma classify_ex_null_description:
  "classify_company ex_null_description = Inl AttributeError"
  by (simp add: classify_company_null ex_null_description_def)

lemma confidence_level_cut_points: "confidence_level points = spec_confidence points"
  by (simp add: confidence_level_def spec_confidence_def)

lemma spec_relevance_tiers: "spec_relevance c \<in> {''direct'', ''indirect'', ''peripheral''}"
  by (simp add: spec_relevance_def Let_def)

lemma ex_direct_fields:
  "name ex_direct = ''LexBot legal assistant''" "description ex_direct = NoKey"
  "source ex_direct = ''GitHub API''" "github_stars ex_direct = Some 150" "votes ex_direct = None"
  by (simp_all add: ex_direct_def)

lemma ex_peripheral_fields:
  "name ex_peripheral = ''Intapp''" "description ex_peripheral = NoKey"
  "source ex_peripheral = ''Startup Database''" "github_stars ex_peripheral = None"
  "votes ex_peripheral = None"
  by (simp_all add: ex_peripheral_def)

lemma ex_high_fields:
  "name ex_high = ''LexBot''" "description ex_high = Text ''A legal AI''"
  "source ex_high = ''Startup Database''" "github_stars ex_high = Some 100"
  "votes ex_high = Some 50"
  by (simp_all add: ex_high_def)

lemma ex_medium_fields:
  "name ex_medium = ''Docket''" "description ex_medium = Text ''Contract review''"
  "source ex_medium = ''Startup Database''" "github_stars ex_medium = None"
  "votes ex_medium = None"
  by (simp_all add: ex_medium_def)

lemma lower_Nil: "lower [] = []"
  by (simp add: lower_def)

lemma lower_examples:
  "lower ''LexBot legal assistant'' = ''lexbot legal assistant''"
  "lower ''Intapp'' = ''intapp''"
  "lower ''LexBot'' = ''lexbot''"
  "lower ''A legal AI'' = ''a legal ai''"
  "lower ''Docket'' = ''docket''"
  "lower ''Contract review'' = ''contract review''"
  by (simp_all add: lower_def lower_char_def char_of_def bit_Suc_0_iff)

lemma relevance_ex_direct: "spec_relevance ex_direct = ''direct''"
  by (simp add: spec_relevance_def ex_direct_fields lower_examples lower_Nil any_in_def
        direct_terms_def)

lemma relevance_ex_peripheral: "spec_relevance ex_peripheral = ''peripheral''"
  by (simp add: spec_relevance_def ex_peripheral_fields lower_examples lower_Nil any_in_def
        direct_terms_def indirect_terms_def)

lemma relevance_ex_high: "spec_relevance ex_high = ''direct''"
  by (simp add: spec_relevance_def ex_high_fields lower_examples any_in_def direct_terms_def)

lemma relevance_ex_medium: "spec_relevance ex_medium = ''indirect''"
  by (simp add: spec_relevance_def ex_medium_fields lower_examples any_in_def direct_terms_def
        indirect_terms_def)

lemma points_ex_direct: "spec_points ex_direct ''direct'' = 5"
  by (simp add: spec_points_def spec_base_points_def spec_bonus_def ex_direct_fields)

lemma points_ex_peripheral: "spec_points ex_peripheral ''peripheral'' = 1"
  by (simp add: spec_points_def spec_base_points_def spec_bonus_def ex_peripheral_fields)

lemma points_ex_high: "spec_points ex_high ''direct'' = 3"
  by (simp add: spec_points_def spec_base_points_def spec_bonus_def ex_high_fields)

lemma points_ex_medium: "spec_points ex_medium ''indirect'' = 2"
  by (simp add: spec_points_def spec_base_points_def spec_bonus_def ex_medium_fields)

lemma classify_ex_direct:
  "classify_company ex_direct =
     Inr (ex_direct\<lparr>relevance := Some ''direct'', confidence := ''very_high''\<rparr>)"
  by (simp add: classify_company_eq ex_direct_fields(2) relevance_ex_direct points_ex_direct
        confidence_level_def)

lemma classify_ex_peripheral:
  "classify_company ex_peripheral =
     Inr (ex_peripheral\<lparr>relevance := Some ''peripheral'', confidence := ''low''\<rparr>)"
  by (simp add: classify_company_eq ex_peripheral_fields(2) relevance_ex_peripheral
        points_ex_peripheral confidence_level_def)

lemma classify_ex_high:
  "classify_company ex_high =
     Inr (ex_high\<lparr>relevance := Some ''direct'', confidence := ''high''\<rparr>)"
  by (simp add: classify_company_eq ex_high_fields(2) relevance_ex_high points_ex_high
        confidence_level_def)

lemma classify_ex_medium:
  "classify_company ex_medium =
     Inr (ex_medium\<lparr>relevance := Some ''indirect'', confidence := ''medium''\<rparr>)"
  by (simp add: classify_company_eq ex_medium_fields(2) relevance_ex_medium points_ex_medium
        confidence_level_def)

text \<open>
  Claim C3, as amended. For every candidate whose description is not \<open>null\<close> (it is a
  string, or the candidate has none), classification returns the candidate with its
  relevance tier and with the confidence that the cut points 4, 3 and 2 give to the point
  score: base points by relevance (direct 3, indirect 2, peripheral 1) plus one point each
  for a source tag containing \<open>API\<close>, more than 100 stars and more than 50 votes. A
  direct candidate with an \<open>API\<close> source and 150 stars scores 5 and receives
  \<open>very_high\<close>; a peripheral candidate with no bonus scores 1 and receives \<open>low\<close>; a
  direct candidate with exactly 100 stars and 50 votes scores 3 and receives \<open>high\<close>; an
  indirect candidate with no bonus scores 2 and receives \<open>medium\<close>.
\<close>

theorem classify_company_confidence_points:
  "(description c \<noteq> JsonNull \<longrightarrow>
      classify_company c =
        Inr (c\<lparr>relevance := Some (spec_relevance c),
               confidence := spec_confidence (spec_points c (spec_relevance c))\<rparr>))
   \<and> spec_relevance c \<in> {''direct'', ''indirect'', ''peripheral''}
   \<and> spec_points ex_direct ''direct'' = 5
   \<and> classify_company ex_direct =
       Inr (ex_direct\<lparr>relevance := Some ''direct'', confidence := ''very_high''\<rparr>)
   \<and> spec_points ex_peripheral ''peripheral'' = 1
   \<and> classify_company ex_peripheral =
       Inr (ex_peripheral\<lparr>relevance := Some ''peripheral'', confidence := ''low''\<rparr>)
   \<and> spec_points ex_high ''direct'' = 3
   \<and> classify_company ex_high =
       Inr (ex_high\<lparr>relevance := Some ''direct'', confidence := ''high''\<rparr>)
   \<and> spec_points ex_medium ''indirect'' = 2
   \<and> classify_company ex_medium =
       Inr (ex_medium\<lparr>relevance := Some ''indirect'', confidence := ''medium''\<rparr>)"
proof -
  have "classify_company c =
        Inr (c\<lparr>relevance := Some (spec_relevance c),
               confidence := spec_confidence (spec_points c (spec_relevance c))\<rparr>)"
    if "description c \<noteq> JsonNull"
    using classify_company_eq [OF that] by (simp add: confidence_level_cut_points)
  then show ?thesis
    using spec_relevance_tiers [of c] points_ex_direct classify_ex_direct points_ex_peripheral
      classify_ex_peripheral points_ex_high classify_ex_high points_ex_medium classify_ex_medium
    by (intro conjI impI)
qed

theorem classify_company_confidence_points_witness:
  "description ex_medium \<noteq> JsonNull
   \<and> classify_company ex_medium =
       Inr (ex_medium\<lparr>relevance := Some ''indirect'', confidence := ''medium''\<rparr>)
   \<and> spec_confidence 5 = ''very_high'' \<and> spec_confidence 4 = ''very_high''
   \<and> spec_confidence 3 = ''high'' \<and> spec_confidence 2 = ''medium''
   \<and> spec_confidence 1 = ''low''"
proof -
  have d: "description ex_medium \<noteq> JsonNull"
    by (simp add: ex_medium_fields)
  note classify_company_confidence_points [of ex_medium, THEN conjunct1, THEN mp, OF d]
  then have "classify_company ex_medium =
       Inr (ex_medium\<lparr>relevance := Some ''indirect'', confidence := ''medium''\<rparr>)"
    by (simp add: relevance_ex_medium points_ex_medium spec_confidence_def)
  with d show ?thesis
    by (simp add: spec_confidence_def)
qed

text \<open>
  Claim C3 as stated fails at its own example: with 5 points the first cut point applies
  and the confidence is \<open>very_high\<close>, not \<open>high\<close>.
\<close>

theorem classify_company_direct_api_stars_not_high:
  "classify_company ex_direct =
     Inr (ex_direct\<lparr>relevance := Some ''direct'', confidence := ''very_high''\<rparr>)
   \<and> classify_company ex_direct \<noteq>
     Inr (ex_direct\<lparr>relevance := Some ''direct'', confidence := ''high''\<rparr>)"
  by (simp add: classify_ex_direct) (simp add: ex_direct_def)

section \<open>Fallback heuristic: funding stage\<close>

lemma dict_get_set: "dict_get (dict_set k v d) k' = (if k' = k then Some v else dict_get d k')"
  by (induction d) (auto simp: dict_get_def)

lemma py_int_Nil: "py_int [] = None"
  by (simp add: py_int_def)

lemma funding_loop_find:
  "funding_loop news fd =
     (case find (\<lambda>a. any_in funding_terms (article_text a)) news of
        None \<Rightarrow> (fd, False)
      | Some a \<Rightarrow>
          ((if spec_news_stage (article_text a) = ''Unknown'' then fd
            else dict_set ''stage'' (spec_news_stage (article_text a)) fd), True))"
  by (induction news) (simp_all add: Let_def spec_news_stage_def)

lemma detect_stage_get:
  "dict_get fd ''stage'' = Some ''Unknown'' \<Longrightarrow>
   dict_get (detect_stage sd fd) ''stage'' = Some (spec_stage sd)"
  by (simp add: detect_stage_def funding_loop_find spec_stage_def stage_from_registry_def
        dict_get_set spec_registry_stage_def py_int_Nil
      split: option.split)

lemma detect_stage_other:
  "k \<noteq> ''stage'' \<Longrightarrow> dict_get (detect_stage sd fd) k = dict_get fd k"
  by (simp add: detect_stage_def funding_loop_find stage_from_registry_def dict_get_set
      split: option.split)

lemma detect_coverage_other:
  "k \<noteq> ''coverage'' \<Longrightarrow> dict_get (detect_coverage sl sd fd) k = dict_get fd k"
  by (simp add: detect_coverage_def dict_get_set Let_def)


lemma fallback_defaults_get:
  "dict_get (fallback_defaults company_name) ''stage'' = Some ''Unknown''"
  "dict_get (fallback_defaults company_name) ''fundraising_stage'' = None"
  "dict_get (fallback_defaults company_name) ''coverage'' = Some ''Unknown''"
  "dict_get (fallback_defaults company_name) ''ai_powered_legal_chatbot'' = Some ''Unknown''"
  "dict_get (fallback_defaults company_name) ''comment''
     = Some (''Enhanced analysis using FREE APIs for '' @ company_name)"
  by (simp_all add: fallback_defaults_def dict_get_def)

lemma py_sum_isl: "isl (py_sum acc xs) = (None \<in> set xs)"
  by (induction acc xs rule: py_sum.induct) auto

lemma py_sum_error: "py_sum acc xs = Inl e \<Longrightarrow> e = TypeError"
  by (induction acc xs rule: py_sum.induct) auto

lemma comment_parts_isl: "isl (comment_parts sd) = (null_repo_count sd \<or> null_points sd)"
proof -
  have "isl (py_sum 0 (map hn_points (tech_mentions sd))) = null_points sd"
    by (simp add: py_sum_isl null_points_def)
  moreover have "\<not> null_points sd" if "tech_mentions sd = []"
    using that by (simp add: null_points_def)
  ultimately show ?thesis
    unfolding comment_parts_def Let_def null_repo_count_def
    by (auto split: option.splits sum.splits)
qed

lemma comment_parts_error: "comment_parts sd = Inl e \<Longrightarrow> e = TypeError"
  unfolding comment_parts_def Let_def
  by (auto split: option.splits sum.splits if_splits dest: py_sum_error)

text \<open>The dictionary of the fallback before the comment is extended.\<close>

lemma fallback_result:
  "enhanced_fallback_analysis sl company_name sd =
     (case comment_parts sd of
        Inl e \<Rightarrow> Inl e
      | Inr parts \<Rightarrow>
          Inr (if parts \<noteq> []
               then dict_set ''comment''
                      (''Enhanced analysis using FREE APIs for '' @ company_name
                         @ ''. Additional insights: '' @ join ''; '' parts)
                      (detect_coverage sl sd (detect_stage sd
                         (dict_set ''ai_powered_legal_chatbot''
                            (ai_label (ai_indicator_score company_name sd))
                            (fallback_defaults company_name))))
               else detect_coverage sl sd (detect_stage sd
                      (dict_set ''ai_powered_legal_chatbot''
                         (ai_label (ai_indicator_score company_name sd))
                         (fallback_defaults company_name)))))"
proof -
  have "dict_get (detect_coverage sl sd (detect_stage sd
          (dict_set ''ai_powered_legal_chatbot''
             (ai_label (ai_indicator_score company_name sd))
             (fallback_defaults company_name)))) ''comment''
        = Some (''Enhanced analysis using FREE APIs for '' @ company_name)"
    by (simp add: detect_coverage_other detect_stage_other dict_get_set fallback_defaults_get)
  then show ?thesis
    unfolding enhanced_fallback_analysis_def Let_def
    by (simp split: sum.split)
qed

lemma fallback_isl:
  "isl (enhanced_fallback_analysis sl company_name sd) = (null_repo_count sd \<or> null_points sd)"
  unfolding comment_parts_isl [symmetric] fallback_result
  by (simp split: sum.split)

lemma fallback_error:
  "enhanced_fallback_analysis sl company_name sd = Inl e \<Longrightarrow> e = TypeError"
  unfolding fallback_result
  by (auto split: sum.splits dest: comment_parts_error)

lemma fallback_entry:
  "k \<noteq> ''comment'' \<Longrightarrow>
   returned_entry k (enhanced_fallback_analysis sl company_name sd) =
     (if null_repo_count sd \<or> null_points sd then Inl TypeError
      else Inr (dict_get (detect_coverage sl sd (detect_stage sd
                  (dict_set ''ai_powered_legal_chatbot''
                     (ai_label (ai_indicator_score company_name sd))
                     (fallback_defaults company_name)))) k))"
proof (cases "enhanced_fallback_analysis sl company_name sd")
  case (Inl e)
  with fallback_error [OF Inl] fallback_isl [of sl company_name sd] show ?thesis
    by (simp add: returned_entry_def)
next
  case (Inr d)
  assume k: "k \<noteq> ''comment''"
  from Inr fallback_isl [of sl company_name sd]
  have n: "\<not> (null_repo_count sd \<or> null_points sd)"
    by simp
  from Inr obtain parts where "comment_parts sd = Inr parts"
    unfolding fallback_result by (auto split: sum.splits)
  with Inr k n show ?thesis
    unfolding fallback_result
    by (auto simp: returned_entry_def dict_get_set)
qed

lemma fallback_stage:
  "returned_entry ''stage'' (enhanced_fallback_analysis sl company_name sd) =
     (if null_repo_count sd \<or> null_points sd then Inl TypeError else Inr (Some (spec_stage sd)))"
proof -
  have "dict_get (dict_set ''ai_powered_legal_chatbot''
          (ai_label (ai_indicator_score company_name sd)) (fallback_defaults company_name))
          ''stage'' = Some ''Unknown''"
    by (simp add: dict_get_set fallback_defaults_get)
  then show ?thesis
    by (simp add: fallback_entry detect_coverage_other detect_stage_get)
qed

lemma fallback_no_fundraising_stage:
  "returned_entry ''fundraising_stage'' (enhanced_fallback_analysis sl company_name sd) =
     (if null_repo_count sd \<or> null_points sd then Inl TypeError else Inr None)"
  by (simp add: fallback_entry detect_coverage_other detect_stage_other dict_get_set
        fallback_defaults_get)

lemma sd_empty_no_null: "\<not> null_repo_count sd_empty" "\<not> null_points sd_empty"
  by (simp_all add: sd_empty_def null_repo_count_def null_points_def)

lemma sd_series_b_no_null: "\<not> null_repo_count sd_series_b" "\<not> null_points sd_series_b"
  by (simp_all add: sd_series_b_def sd_empty_def null_repo_count_def null_points_def)

lemma sd_inc_2015_no_null: "\<not> null_repo_count sd_inc_2015" "\<not> null_points sd_inc_2015"
  by (simp_all add: sd_inc_2015_def sd_empty_def null_repo_count_def null_points_def)

lemma article_text_series_b:
  "article_text \<lparr>art_title = ''Acme raised a Series B'', art_description = []\<rparr>
     = ''acme raised a series b ''"
  by (simp add: article_text_def lower_def lower_char_def char_of_def bit_Suc_0_iff)

lemma spec_stage_series_b: "spec_stage sd_series_b = ''Growth''"
  by (simp add: spec_stage_def sd_series_b_def sd_empty_def article_text_series_b
        any_in_def funding_terms_def spec_news_stage_def)

lemma py_int_2015: "py_int ''2015'' = Some 2015"
  by (simp add: py_int_def int_space_def is_digit_def)

lemma spec_stage_inc_2015: "spec_stage sd_inc_2015 = ''Established''"
  by (simp add: spec_stage_def sd_inc_2015_def sd_empty_def py_int_2015 spec_registry_stage_def)

text \<open>
  Claim C7, as amended. In the fallback heuristic the stage is derived from the first news
  article that has a funding term (series c or d gives Established, series a or b Growth,
  seed Startup, none of them leaves Unknown), and when no article has a funding term, from
  the registry incorporation year against 2025 (8 years or more Established, 4 or more
  Growth, else Startup). The fallback result has no \<open>fundraising_stage\<close> entry. This is
  what the fallback returns for every bundle without a null repository count or null
  discussion points; on those it raises \<open>TypeError\<close>. News containing "raised a Series B"
  gives stage Growth; incorporation date "2015" with no news gives Established.
\<close>

theorem fallback_stage_from_news_then_registry:
  "returned_entry ''stage'' (enhanced_fallback_analysis sl company_name sd)
     = (if null_repo_count sd \<or> null_points sd then Inl TypeError
        else Inr (Some (spec_stage sd)))
   \<and> returned_entry ''fundraising_stage'' (enhanced_fallback_analysis sl company_name sd)
       = (if null_repo_count sd \<or> null_points sd then Inl TypeError else Inr None)
   \<and> returned_entry ''stage'' (enhanced_fallback_analysis sl company_name sd_series_b)
       = Inr (Some ''Growth'')
   \<and> returned_entry ''stage'' (enhanced_fallback_analysis sl company_name sd_inc_2015)
       = Inr (Some ''Established'')"
  by (simp add: fallback_stage fallback_no_fundraising_stage spec_stage_series_b
        spec_stage_inc_2015 sd_series_b_no_null sd_inc_2015_no_null)

text \<open>
  Claim C7 as stated fails: for news containing "raised a Series B" the fallback sets the
  stage, and no \<open>fundraising_stage\<close> of "Series B".
\<close>

theorem fallback_sets_no_fundraising_stage:
  "returned_entry ''stage'' (enhanced_fallback_analysis remdups ''Acme'' sd_series_b)
     = Inr (Some ''Growth'')
   \<and> returned_entry ''fundraising_stage'' (enhanced_fallback_analysis remdups ''Acme'' sd_series_b)
       \<noteq> Inr (Some ''Series B'')"
  by (simp add: fallback_stage fallback_no_fundraising_stage spec_stage_series_b
        sd_series_b_no_null)

section \<open>Fallback heuristic: AI capability\<close>

lemma str_in_iff: "str_in t s \<longleftrightarrow> (\<exists>p q. s = p @ t @ q)"
proof (induction s)
  case Nil
  show ?case by auto
next
  case (Cons c cs)
  have "take (length t) (c # cs) = t \<longleftrightarrow> (\<exists>q. c # cs = t @ q)"
    by (metis append_eq_conv_conj)
  moreover have "(\<exists>p q. c # cs = p @ t @ q) \<longleftrightarrow> (\<exists>q. c # cs = t @ q) \<or> (\<exists>p q. cs = p @ t @ q)"
  proof
    assume "\<exists>p q. c # cs = p @ t @ q"
    then obtain p q where pq: "c # cs = p @ t @ q" by blast
    show "(\<exists>q. c # cs = t @ q) \<or> (\<exists>p q. cs = p @ t @ q)"
    proof (cases p)
      case Nil
      with pq show ?thesis by auto
    next
      case (Cons a p')
      with pq have "cs = p' @ t @ q" by simp
      then show ?thesis by blast
    qed
  next
    assume "(\<exists>q. c # cs = t @ q) \<or> (\<exists>p q. cs = p @ t @ q)"
    then show "\<exists>p q. c # cs = p @ t @ q"
    proof
      assume "\<exists>q. c # cs = t @ q"
      then show ?thesis by (metis append_Nil)
    next
      assume "\<exists>p q. cs = p @ t @ q"
      then obtain p q where "cs = p @ t @ q" by blast
      then have "c # cs = (c # p) @ t @ q" by simp
      then show ?thesis by blast
    qed
  qed
  ultimately show ?case using Cons.IH by simp
qed

lemma str_in_middle: "str_in t (p @ t @ q)"
  unfolding str_in_iff by blast

lemma any_in_middle: "t \<in> set ts \<Longrightarrow> any_in ts (p @ t @ q)"
  unfolding any_in_def list_ex_iff using str_in_middle by blast

lemma lower_append: "lower (a @ b) = lower a @ lower b"
  by (simp add: lower_def)

lemma any_in_lower_insert:
  "lower kw \<in> set ts \<Longrightarrow> any_in ts (lower (insert_at pos kw s @ rest))"
  using any_in_middle [of "lower kw" ts "lower (take pos s)" "lower (drop pos s) @ lower rest"]
  by (simp add: insert_at_def lower_append)

lemma any_in_lower_insert_after:
  "lower kw \<in> set ts \<Longrightarrow> any_in ts (lower (front @ insert_at pos kw s))"
  using any_in_middle [of "lower kw" ts "lower front @ lower (take pos s)" "lower (drop pos s)"]
  by (simp add: insert_at_def lower_append)

lemma news_ai_loop_eq:
  "news_ai_loop news k = k + (if list_ex (\<lambda>a. any_in news_ai_terms (article_text a)) news then 1 else 0)"
  by (induction news) simp_all

lemma repo_ai_loop_eq:
  "repo_ai_loop repos k = k + (if list_ex (\<lambda>r. any_in repo_ai_terms (repo_text r)) repos then 1 else 0)"
  by (induction repos) simp_all

lemma ai_indicator_score_eq: "ai_indicator_score company_name sd = spec_ai_points company_name sd"
  by (simp add: ai_indicator_score_def spec_ai_points_def news_ai_loop_eq repo_ai_loop_eq Let_def)

lemma list_ex_map_at:
  "(\<And>x. P (f x)) \<Longrightarrow> i < length xs \<Longrightarrow> list_ex P (map_at i f xs)"
  unfolding map_at_def list_ex_iff using set_update_memI [of i xs "f (xs ! i)"] by auto

lemma map_at_out_of_range: "\<not> i < length xs \<Longrightarrow> map_at i f xs = xs"
  by (simp add: map_at_def)

lemma article_text_title:
  "lower kw \<in> set news_ai_terms \<Longrightarrow>
   any_in news_ai_terms (article_text (a\<lparr>art_title := insert_at pos kw (art_title a)\<rparr>))"
  using any_in_lower_insert [of kw news_ai_terms pos "art_title a" "'' '' @ art_description a"]
  by (simp add: article_text_def)

lemma article_text_description:
  "lower kw \<in> set news_ai_terms \<Longrightarrow>
   any_in news_ai_terms
     (article_text (a\<lparr>art_description := insert_at pos kw (art_description a)\<rparr>))"
  using any_in_lower_insert_after [of kw news_ai_terms "art_title a @ '' ''" pos "art_description a"]
  by (simp add: article_text_def)

lemma repo_text_name:
  "lower kw \<in> set repo_ai_terms \<Longrightarrow>
   any_in repo_ai_terms (repo_text (r\<lparr>repo_name := insert_at pos kw (repo_name r)\<rparr>))"
  using any_in_lower_insert [of kw repo_ai_terms pos "repo_name r" "'' '' @ repo_description r"]
  by (simp add: repo_text_def)

lemma repo_text_description:
  "lower kw \<in> set repo_ai_terms \<Longrightarrow>
   any_in repo_ai_terms
     (repo_text (r\<lparr>repo_description := insert_at pos kw (repo_description r)\<rparr>))"
  using any_in_lower_insert_after [of kw repo_ai_terms "repo_name r @ '' ''" pos "repo_description r"]
  by (simp add: repo_text_def)

lemma list_ex_map_at_le:
  assumes "\<And>x. P (f x)"
  shows "(if list_ex P xs then 1 else 0::int) \<le> (if list_ex P (map_at i f xs) then 1 else 0)"
proof (cases "i < length xs")
  case True
  with assms have "list_ex P (map_at i f xs)" by (rule list_ex_map_at)
  then show ?thesis by simp
next
  case False
  then show ?thesis by (simp add: map_at_out_of_range)
qed

lemma add_keyword_points:
  assumes "qualifies pl kw"
  shows "spec_ai_points company_name sd
           \<le> (case add_keyword pl pos kw (company_name, sd) of (n', sd') \<Rightarrow> spec_ai_points n' sd')"
proof (cases pl)
  case InName
  with assms have "any_in name_ai_terms (lower (insert_at pos kw company_name))"
    using any_in_lower_insert [of kw name_ai_terms pos company_name "[]"]
    by (simp add: qualifies_def place_terms_def)
  with InName show ?thesis
    by (simp add: add_keyword_def spec_ai_points_def)
next
  case InSearchText
  with assms have "any_in search_ai_terms (lower (insert_at pos kw (search_results sd)))"
    using any_in_lower_insert [of kw search_ai_terms pos "search_results sd" "[]"]
    by (simp add: qualifies_def place_terms_def)
  with InSearchText show ?thesis
    by (simp add: add_keyword_def spec_ai_points_def)
next
  case (InNewsTitle i)
  with assms have q: "lower kw \<in> set news_ai_terms"
    by (simp add: qualifies_def place_terms_def)
  show ?thesis
    using list_ex_map_at_le [of "\<lambda>a. any_in news_ai_terms (article_text a)"
        "\<lambda>a. a\<lparr>art_title := insert_at pos kw (art_title a)\<rparr>" "news_mentions sd" i,
        OF article_text_title [OF q]]
    by (simp add: InNewsTitle add_keyword_def spec_ai_points_def)
next
  case (InNewsDescription i)
  with assms have q: "lower kw \<in> set news_ai_terms"
    by (simp add: qualifies_def place_terms_def)
  show ?thesis
    using list_ex_map_at_le [of "\<lambda>a. any_in news_ai_terms (article_text a)"
        "\<lambda>a. a\<lparr>art_description := insert_at pos kw (art_description a)\<rparr>" "news_mentions sd" i,
        OF article_text_description [OF q]]
    by (simp add: InNewsDescription add_keyword_def spec_ai_points_def)
next
  case (InRepoName i)
  with assms have q: "lower kw \<in> set repo_ai_terms"
    by (simp add: qualifies_def place_terms_def)
  show ?thesis
  proof (cases "github_activity sd")
    case None
    with InRepoName show ?thesis
      by (simp add: add_keyword_def spec_ai_points_def)
  next
    case (Some g)
    show ?thesis
      using list_ex_map_at_le [of "\<lambda>r. any_in repo_ai_terms (repo_text r)"
          "\<lambda>r. r\<lparr>repo_name := insert_at pos kw (repo_name r)\<rparr>" "public_repos g" i,
          OF repo_text_name [OF q]]
      by (simp add: InRepoName Some add_keyword_def spec_ai_points_def)
  qed
next
  case (InRepoDescription i)
  with assms have q: "lower kw \<in> set repo_ai_terms"
    by (simp add: qualifies_def place_terms_def)
  show ?thesis
  proof (cases "github_activity sd")
    case None
    with InRepoDescription show ?thesis
      by (simp add: add_keyword_def spec_ai_points_def)
  next
    case (Some g)
    show ?thesis
      using list_ex_map_at_le [of "\<lambda>r. any_in repo_ai_terms (repo_text r)"
          "\<lambda>r. r\<lparr>repo_description := insert_at pos kw (repo_description r)\<rparr>"
          "public_repos g" i, OF repo_text_description [OF q]]
      by (simp add: InRepoDescription Some add_keyword_def spec_ai_points_def)
  qed
qed

lemma tier_rank_mono: "a \<le> b \<Longrightarrow> tier_rank (ai_label a) \<le> tier_rank (ai_label b)"
  by (simp add: tier_rank_def ai_label_def)


lemma dict_get_set_other: "k' \<noteq> k \<Longrightarrow> dict_get (dict_set k v d) k' = dict_get d k'"
  by (simp add: dict_get_set)

lemma fallback_ai_label:
  "returned_entry ''ai_powered_legal_chatbot'' (enhanced_fallback_analysis sl company_name sd)
     = (if null_repo_count sd \<or> null_points sd then Inl TypeError
        else Inr (Some (ai_label (ai_indicator_score company_name sd))))"
  by (simp add: fallback_entry detect_coverage_other detect_stage_other dict_get_set)

text \<open>
  Claim C8. The indicator score is 2 for a term in the name, plus 1 for a term in the search
  text, plus 1 when some news article has a term, plus 1 when some repository has one; the
  fallback writes the tier of that score (Yes from 3, Possible from 1, else No) into what
  it returns, which it does for every bundle without a null repository count or null
  discussion points. Inserting a qualifying keyword anywhere into any text source never
  lowers the score and never lowers the tier.
\<close>

theorem ai_capability_monotone:
  "ai_indicator_score company_name sd = spec_ai_points company_name sd
   \<and> returned_entry ''ai_powered_legal_chatbot''
         (enhanced_fallback_analysis sl company_name sd)
       = (if null_repo_count sd \<or> null_points sd then Inl TypeError
          else Inr (Some (ai_label (ai_indicator_score company_name sd))))
   \<and> (qualifies pl kw \<longrightarrow>
        (case add_keyword pl pos kw (company_name, sd) of
           (n', sd') \<Rightarrow>
             ai_indicator_score company_name sd \<le> ai_indicator_score n' sd'
             \<and> tier_rank (ai_label (ai_indicator_score company_name sd))
                 \<le> tier_rank (ai_label (ai_indicator_score n' sd'))))"
proof -
  have "case add_keyword pl pos kw (company_name, sd) of
          (n', sd') \<Rightarrow>
             ai_indicator_score company_name sd \<le> ai_indicator_score n' sd'
             \<and> tier_rank (ai_label (ai_indicator_score company_name sd))
                 \<le> tier_rank (ai_label (ai_indicator_score n' sd'))"
    if "qualifies pl kw"
    using add_keyword_points [OF that, of company_name sd pos]
    by (auto simp: ai_indicator_score_eq intro: tier_rank_mono split: prod.splits)
  then show ?thesis
    using ai_indicator_score_eq fallback_ai_label by blast
qed

theorem ai_capability_monotone_witness:
  "qualifies InName ''AI''
   \<and> add_keyword InName 4 ''AI'' (''Acme Legal'', sd_empty) = (''AcmeAI Legal'', sd_empty)
   \<and> ai_indicator_score ''Acme Legal'' sd_empty \<le> ai_indicator_score ''AcmeAI Legal'' sd_empty
   \<and> tier_rank (ai_label (ai_indicator_score ''Acme Legal'' sd_empty))
       \<le> tier_rank (ai_label (ai_indicator_score ''AcmeAI Legal'' sd_empty))"
proof -
  have q: "qualifies InName ''AI''"
    by (simp add: qualifies_def place_terms_def name_ai_terms_def lower_def lower_char_def
          char_of_def bit_Suc_0_iff)
  have a: "add_keyword InName 4 ''AI'' (''Acme Legal'', sd_empty) = (''AcmeAI Legal'', sd_empty)"
    by (simp add: add_keyword_def insert_at_def)
  note ai_capability_monotone [of "''Acme Legal''" sd_empty remdups InName "''AI''" 4,
      THEN conjunct2, THEN conjunct2, THEN mp, OF q]
  then have "ai_indicator_score ''Acme Legal'' sd_empty \<le> ai_indicator_score ''AcmeAI Legal'' sd_empty
     \<and> tier_rank (ai_label (ai_indicator_score ''Acme Legal'' sd_empty))
         \<le> tier_rank (ai_label (ai_indicator_score ''AcmeAI Legal'' sd_empty))"
    unfolding a by simp
  with q a show ?thesis by blast
qed

section \<open>Fallback heuristic: geographic coverage\<close>

lemma str_in_Nil: "str_in t [] = (t = [])"
  by simp

lemma jurisdiction_indicators_regions:
  "jurisdiction_indicators corp_data acc = acc @ spec_registry_regions corp_data"
  by (simp add: jurisdiction_indicators_def spec_registry_regions_def spec_jurisdiction_region_def
        any_in_def lower_def Let_def split: option.split)

lemma text_indicators_append: "text_indicators t acc = acc @ text_indicators t []"
  by (simp add: text_indicators_def)

lemma text_indicators_first: "text_indicators t [] = take 1 (spec_text_regions t)"
  by (simp add: text_indicators_def spec_text_regions_def)



lemma detect_coverage_get:
  "dict_get (detect_coverage sl sd fd) ''coverage'' =
     (if spec_registry_regions (corporate_data sd)
           @ take 1 (spec_text_regions (coverage_all_text sd)) = []
      then dict_get fd ''coverage''
      else Some (join ''/'' (sl (spec_registry_regions (corporate_data sd)
                                  @ take 1 (spec_text_regions (coverage_all_text sd))))))"
proof -
  have "text_indicators (coverage_all_text sd) (jurisdiction_indicators (corporate_data sd) [])
      = spec_registry_regions (corporate_data sd)
          @ take 1 (spec_text_regions (coverage_all_text sd))"
    using text_indicators_append [of "coverage_all_text sd"
        "jurisdiction_indicators (corporate_data sd) []"]
    by (simp add: jurisdiction_indicators_regions text_indicators_first)
  then show ?thesis
    by (simp add: detect_coverage_def Let_def dict_get_set)
qed

lemma fallback_coverage:
  "returned_entry ''coverage'' (enhanced_fallback_analysis sl company_name sd) =
     (if null_repo_count sd \<or> null_points sd then Inl TypeError
      else Inr (Some (if spec_registry_regions (corporate_data sd)
                          @ take 1 (spec_text_regions (coverage_all_text sd)) = []
                      then ''Unknown''
                      else join ''/'' (sl (spec_registry_regions (corporate_data sd)
                             @ take 1 (spec_text_regions (coverage_all_text sd)))))))"
  by (simp add: fallback_entry detect_coverage_get detect_stage_other dict_get_set
        fallback_defaults_get)


lemma remdups_listing: "is_set_listing remdups"
  by (simp add: is_set_listing_def)

lemma jurisdiction_examples:
  "spec_jurisdiction_region ''de'' = [''Germany'']"
  "spec_jurisdiction_region ''GB'' = [''Europe'']"
  "spec_jurisdiction_region ''us_ca'' = [''Global/US'']"
  "spec_jurisdiction_region ''us_de'' = [''Germany'']"
  "spec_jurisdiction_region ''jp'' = []"
  by (simp_all add: spec_jurisdiction_region_def lower_def lower_char_def char_of_def
        bit_Suc_0_iff)








lemma sd_registered_de_coverage:
  "returned_entry ''coverage'' (enhanced_fallback_analysis remdups ''Acme'' sd_registered_de)
     = Inr (Some ''Germany'')"
proof -
  have "coverage_all_text sd_registered_de = ''a german and european company ''"
    by (simp add: coverage_all_text_def sd_registered_de_def sd_empty_def lower_def
          lower_char_def)
  moreover have "spec_text_regions ''a german and european company ''
      = [''Germany'', ''Europe'']"
    by (simp add: spec_text_regions_def any_in_def)
  moreover have "spec_registry_regions (corporate_data sd_registered_de) = [''Germany'']"
    by (simp add: spec_registry_regions_def sd_registered_de_def sd_empty_def
          jurisdiction_examples)
  moreover have "\<not> null_repo_count sd_registered_de" "\<not> null_points sd_registered_de"
    by (simp_all add: null_repo_count_def null_points_def sd_registered_de_def sd_empty_def)
  ultimately show ?thesis
    by (simp add: fallback_coverage)
qed







section \<open>The language-model agent\<close>

lemma call_groq_loop_verdicts:
  "call_groq_loop json_loads groq retries [k..<retries] =
     (case dropWhile (\<lambda>v. v = Retry)
             (map (\<lambda>i. spec_verdict json_loads (groq i)) [k..<retries]) of
        Accept content # rest \<Rightarrow> Some content
      | _ \<Rightarrow> None)"
proof (induction "retries - k" arbitrary: k)
  case 0
  then have "retries \<le> k" by simp
  then have "[k..<retries] = []" by simp
  show ?case unfolding \<open>[k..<retries] = []\<close> by simp
next
  case (Suc n)
  then have k: "k < retries" and n: "n = retries - Suc k"
    by simp_all
  from k have upt: "[k..<retries] = k # [Suc k..<retries]"
    by (rule upt_conv_Cons)
  note IH = Suc.hyps(1) [OF n]
  have last: "[Suc k..<retries] = []" if "\<not> k < retries - 1"
    using that k by simp
  show ?case
  proof (cases "k < retries - 1")
    case True
    then show ?thesis
      unfolding upt
      by (simp add: IH spec_verdict_def split: llm_attempt.split option.split)
  next
    case False
    then show ?thesis
      unfolding upt
      by (simp add: IH last spec_verdict_def split: llm_attempt.split option.split)
  qed
qed

lemma call_groq_llm_verdicts:
  "call_groq_llm json_loads groq =
     (case dropWhile (\<lambda>v. v = Retry) (map (\<lambda>i. spec_verdict json_loads (groq i)) [0..<3]) of
        Accept content # rest \<Rightarrow> Some content
      | _ \<Rightarrow> None)"
  unfolding call_groq_llm_def Let_def by (rule call_groq_loop_verdicts)

lemma github_context_isl: "isl (github_context (github_activity sd)) = null_repo_count sd"
  by (simp add: github_context_def null_repo_count_def split: option.split)

lemma github_context_error: "github_context g = Inl e \<Longrightarrow> e = TypeError"
  by (auto simp: github_context_def split: option.splits if_splits)

lemma llm_research_agent_reply:
  "llm_research_agent json_loads groq sl company_name sd =
     (if null_repo_count sd then Inl TypeError
      else case spec_llm_reply json_loads groq of
             Some llm_data \<Rightarrow> Inr llm_data
           | None \<Rightarrow> fallback_json sl company_name sd)"
proof -
  define vs where
    "vs = dropWhile (\<lambda>v. v = Retry) (map (\<lambda>i. spec_verdict json_loads (groq i)) [0..<3])"
  show ?thesis
  proof (cases "github_context (github_activity sd)")
    case (Inl e)
    with github_context_error [OF Inl] github_context_isl [of sd] show ?thesis
      by (simp add: llm_research_agent_def)
  next
    case (Inr ctx)
    with github_context_isl [of sd] have "\<not> null_repo_count sd"
      by simp
    with Inr show ?thesis
      unfolding llm_research_agent_def call_groq_llm_verdicts spec_llm_reply_def
        vs_def [symmetric]
      by (simp split: list.split verdict.split option.split)
  qed
qed

lemma spec_llm_reply_constant:
  "spec_llm_reply json_loads (\<lambda>i. a) =
     (case spec_verdict json_loads a of
        Accept content \<Rightarrow> if content = [] then None else json_loads content
      | _ \<Rightarrow> None)"
  by (simp add: spec_llm_reply_def numeral_3_eq_3 split: verdict.split)

lemma fallback_json_isl:
  "isl (fallback_json sl company_name sd) = (null_repo_count sd \<or> null_points sd)"
  unfolding fallback_isl [of sl company_name sd, symmetric] fallback_json_def
  by (simp split: sum.split)

lemma fallback_json_error: "fallback_json sl company_name sd = Inl e \<Longrightarrow> e = TypeError"
  by (auto simp: fallback_json_def split: sum.splits dest: fallback_error)

lemma fallback_json_not_empty: "fallback_json sl company_name sd \<noteq> Inr (JDict [])"
proof
  assume "fallback_json sl company_name sd = Inr (JDict [])"
  then have e: "enhanced_fallback_analysis sl company_name sd = Inr []"
    by (auto simp: fallback_json_def split: sum.splits)
  then have "\<not> (null_repo_count sd \<or> null_points sd)"
    using fallback_isl [of sl company_name sd] by simp
  with fallback_stage [of sl company_name sd] e show False
    by (simp add: returned_entry_def dict_get_def)
qed

lemma llm_research_agent_isl:
  "isl (llm_research_agent json_loads groq sl company_name sd) =
     (null_repo_count sd \<or> (spec_llm_reply json_loads groq = None \<and> null_points sd))"
  by (simp add: llm_research_agent_reply fallback_json_isl split: option.split)

text \<open>
  Claim C2, as amended. The reply of the language model is checked for being parseable
  JSON, and for nothing else. Once the prompt is built, the agent returns the parsed
  content of the first attempt that is not retried when that attempt has status 200 and
  parseable, non-empty content; in every other case (content that does not parse at any
  attempt, time-outs, an authentication error) it returns the result of the fallback
  heuristic. A parseable reply is returned as it is, whatever its keys. No failure of the
  call or of the parsing reaches the caller: the agent raises only on a bundle with a null
  repository count, before the call, and after it where the fallback heuristic does, on
  null discussion points.
\<close>

theorem llm_reply_checked_for_parseability_only:
  "llm_research_agent json_loads groq sl company_name sd =
     (if null_repo_count sd then Inl TypeError
      else case spec_llm_reply json_loads groq of
             Some llm_data \<Rightarrow> Inr llm_data
           | None \<Rightarrow> fallback_json sl company_name sd)
   \<and> isl (llm_research_agent json_loads groq sl company_name sd)
       = (null_repo_count sd \<or> (spec_llm_reply json_loads groq = None \<and> null_points sd))
   \<and> llm_research_agent json_loads_sample (\<lambda>i. Response 200 (Some ''not json'')) sl company_name sd
       = (if null_repo_count sd then Inl TypeError else fallback_json sl company_name sd)
   \<and> llm_research_agent json_loads_sample (\<lambda>i. RaisedTimeout) sl company_name sd
       = (if null_repo_count sd then Inl TypeError else fallback_json sl company_name sd)
   \<and> llm_research_agent json_loads_sample (\<lambda>i. Response 401 None) sl company_name sd
       = (if null_repo_count sd then Inl TypeError else fallback_json sl company_name sd)
   \<and> llm_research_agent json_loads_sample (\<lambda>i. Response 200 (Some ''{}'')) sl company_name sd
       = (if null_repo_count sd then Inl TypeError else Inr (JDict []))"
  using llm_research_agent_isl [of json_loads groq sl company_name sd]
  by (simp add: llm_research_agent_reply spec_llm_reply_constant spec_verdict_def
        json_loads_sample_def)

text \<open>
  Claim C2 as stated fails: the reply \<open>{}\<close> is parseable JSON without any of the declared
  keys, and the agent returns it instead of the fallback result.
\<close>

theorem llm_reply_with_other_keys_is_kept:
  "\<not> spec_conforms (JDict [])
   \<and> llm_research_agent json_loads_sample (\<lambda>i. Response 200 (Some ''{}'')) remdups ''Acme'' sd_empty
       = Inr (JDict [])
   \<and> Inr (JDict []) \<noteq> fallback_json remdups ''Acme'' sd_empty"
proof -
  have "\<not> spec_conforms (JDict [])"
    by (simp add: spec_conforms_def dict_keys_def llm_schema_keys_def)
  moreover have "llm_research_agent json_loads_sample (\<lambda>i. Response 200 (Some ''{}''))
      remdups ''Acme'' sd_empty = Inr (JDict [])"
    by (simp add: llm_research_agent_reply spec_llm_reply_constant spec_verdict_def
          json_loads_sample_def sd_empty_no_null)
  ultimately show ?thesis
    using fallback_json_not_empty [of remdups "''Acme''" sd_empty] by simp
qed

section \<open>Failure isolation of the source adapters\<close>

lemma web_search_agent_bundle: "web_search_agent ad = spec_bundle ad"
  unfolding web_search_agent_def spec_bundle_def fragment_or_def Let_def
  by (cases "duckduckgo_search ad"; cases "google_news_search ad"; cases "hacker_news_search ad";
      cases "opencorporates_search ad"; cases "github_search ad";
      cases "google_scraping_fallback ad")
     (simp_all split: prod.split)


lemma set_item_isl: "isl (set_item d k v) = isl (set_item d' k v)"
  by (simp add: set_item_def split: json.split)

lemma update_from_seq_isl: "isl (update_from_seq d xs) = isl (update_from_seq d' xs)"
proof (induction xs arbitrary: d d')
  case Nil
  show ?case by simp
next
  case (Cons x xs)
  show ?case
  proof (cases "seq_items x")
    case (Inl e)
    then show ?thesis by simp
  next
    case (Inr items)
    show ?thesis
    proof (cases "\<exists>k v. items = [k, v]")
      case True
      then obtain k v where kv: "items = [k, v]" by blast
      show ?thesis
      proof (cases "set_item d k v")
        case (Inl e)
        with set_item_isl [of d k v d'] obtain e' where "set_item d' k v = Inl e'"
          by (cases "set_item d' k v") simp_all
        with Inl Inr kv show ?thesis by simp
      next
        case a: (Inr d1)
        with set_item_isl [of d k v d'] obtain d2 where "set_item d' k v = Inr d2"
          by (cases "set_item d' k v") simp_all
        with a Inr kv Cons.IH [of d1 d2] show ?thesis by simp
      qed
    next
      case False
      then have "(case items of [k, v] \<Rightarrow> f k v | _ \<Rightarrow> g) = g" for f and g :: "error + json dict"
        by (auto split: list.split)
      with Inr show ?thesis by simp
    qed
  qed
qed

lemma py_update_isl: "isl (py_update d v) = isl (py_update d' v)"
  using update_from_seq_isl [of d _ d'] by (simp add: py_update_def split: json.split)

lemma spec_bundle_fragments:
  "github_activity (spec_bundle ad) =
     (case github_search ad of Inr g \<Rightarrow> Some g | Inl e \<Rightarrow> None)"
  "tech_mentions (spec_bundle ad) =
     (case hacker_news_search ad of Inr ds \<Rightarrow> ds | Inl e \<Rightarrow> [])"
  by (simp_all add: spec_bundle_def fragment_or_def Let_def split: prod.split sum.split)

lemma fallback_json_object:
  "fallback_json sl company_name sd = Inr v \<Longrightarrow> \<exists>kvs. v = JDict kvs"
  by (auto simp: fallback_json_def split: sum.splits)

lemma research_isl:
  "isl (research_single_company json_loads w company_name company) = spec_aborts json_loads w"
proof -
  define sd where "sd = web_search_agent (adapter_outcomes w)"
  define p where "p = (if website sd \<noteq> []
             then dict_update (initial_profile company_name company (clock w))
                    (website_analysis_agent (website sd) (site_fetch w))
             else initial_profile company_name company (clock w))"
  have r: "research_single_company json_loads w company_name company =
      (case llm_research_agent json_loads (groq_attempts w) (set_order w) company_name sd of
         Inl e \<Rightarrow> Inl e
       | Inr llm_data \<Rightarrow>
           (case py_update p llm_data of
              Inl e \<Rightarrow> Inl e
            | Inr profile \<Rightarrow>
                Inr (dict_update
                       (dict_update profile (funding_research_agent (funding_fetch w)))
                       (competition_analysis_agent (competition_fetch w)))))"
    unfolding research_single_company_def Let_def sd_def p_def by (rule refl)
  have a: "spec_aborts json_loads w =
      (null_repo_count sd \<or>
         (case spec_llm_reply json_loads (groq_attempts w) of
            None \<Rightarrow> null_points sd
          | Some llm_data \<Rightarrow> isl (py_update [] llm_data)))"
    unfolding spec_aborts_def Let_def sd_def web_search_agent_bundle by (rule refl)
  show ?thesis
  proof (cases "llm_research_agent json_loads (groq_attempts w) (set_order w) company_name sd")
    case (Inl e)
    with llm_research_agent_isl [of json_loads "groq_attempts w" "set_order w" company_name sd]
    have "null_repo_count sd
        \<or> (spec_llm_reply json_loads (groq_attempts w) = None \<and> null_points sd)"
      by simp
    moreover have "isl (research_single_company json_loads w company_name company)"
      unfolding r using Inl by simp
    moreover have "\<not> null_repo_count sd \<Longrightarrow> spec_llm_reply json_loads (groq_attempts w) \<noteq> None
        \<Longrightarrow> False"
      using Inl by (auto simp: llm_research_agent_reply)
    ultimately show ?thesis
      unfolding a by (auto split: option.split)
  next
    case (Inr llm_data)
    with llm_research_agent_isl [of json_loads "groq_attempts w" "set_order w" company_name sd]
    have n: "\<not> null_repo_count sd"
      and m: "spec_llm_reply json_loads (groq_attempts w) = None \<Longrightarrow> \<not> null_points sd"
      by auto
    have i: "isl (research_single_company json_loads w company_name company)
        = isl (py_update [] llm_data)"
      unfolding r using Inr py_update_isl [of p llm_data "[]"]
      by (cases "py_update p llm_data") simp_all
    show ?thesis
    proof (cases "spec_llm_reply json_loads (groq_attempts w)")
      case None
      with Inr n have "fallback_json (set_order w) company_name sd = Inr llm_data"
        by (simp add: llm_research_agent_reply)
      from fallback_json_object [OF this] have "\<not> isl (py_update [] llm_data)"
        by (auto simp: py_update_def)
      with None n m show ?thesis
        unfolding a i by simp
    next
      case (Some v)
      with Inr n have "v = llm_data"
        by (simp add: llm_research_agent_reply)
      with Some n show ?thesis
        unfolding a i by simp
    qed
  qed
qed



lemma all_fail_no_reply: "spec_llm_reply json_loads (groq_attempts all_fail) = None"
  by (simp add: all_fail_def spec_llm_reply_constant spec_verdict_def)


lemma all_fail_bundle: "spec_bundle (adapter_outcomes all_fail) = sd_empty"
  by (simp add: spec_bundle_def fragment_or_def all_fail_def compile_content_def sd_empty_def)


lemma all_fail_completes:
  "\<not> isl (research_single_company json_loads all_fail company_name company)"
  by (simp add: research_isl spec_aborts_def all_fail_bundle all_fail_no_reply
        sd_empty_no_null)

lemma research_error:
  "research_single_company json_loads w company_name company = Inl e \<Longrightarrow>
   spec_llm_reply json_loads (groq_attempts w) = None \<Longrightarrow> e = TypeError"
proof -
  assume r: "research_single_company json_loads w company_name company = Inl e"
    and n: "spec_llm_reply json_loads (groq_attempts w) = None"
  define sd where "sd = web_search_agent (adapter_outcomes w)"
  have "llm_research_agent json_loads (groq_attempts w) (set_order w) company_name sd
      = (if null_repo_count sd then Inl TypeError
         else fallback_json (set_order w) company_name sd)"
    by (simp add: llm_research_agent_reply n)
  moreover have "\<exists>kvs. v = JDict kvs"
    if "fallback_json (set_order w) company_name sd = Inr v" for v
    using that by (rule fallback_json_object)
  ultimately show ?thesis
    using r fallback_json_error [of "set_order w" company_name sd]
    unfolding research_single_company_def Let_def sd_def [symmetric]
    by (auto simp: py_update_def split: sum.splits if_splits)
qed

lemma found_null_points_aborts:
  "research_single_company json_loads (all_fail\<lparr>adapter_outcomes := found_null_points\<rparr>)
     ''Acme'' company_acme = Inl TypeError"
proof -
  let ?w = "all_fail\<lparr>adapter_outcomes := found_null_points\<rparr>"
  have n: "spec_llm_reply json_loads (groq_attempts ?w) = None"
    using all_fail_no_reply by simp
  have "null_points (spec_bundle found_null_points)"
    by (simp add: null_points_def spec_bundle_fragments found_null_points_def)
  then have "isl (research_single_company json_loads ?w ''Acme'' company_acme)"
    by (simp add: research_isl spec_aborts_def Let_def all_fail_no_reply)
  then obtain e where e: "research_single_company json_loads ?w ''Acme'' company_acme = Inl e"
    by (cases "research_single_company json_loads ?w ''Acme'' company_acme") simp_all
  from research_error [OF e n] e show ?thesis
    by simp
qed




section \<open>The profile\<close>

lemma dict_keys_dict_set:
  "dict_keys (dict_set k v d) = (if k \<in> set (dict_keys d) then dict_keys d else dict_keys d @ [k])"
proof (induction d)
  case Nil
  show ?case by (simp add: dict_keys_def)
next
  case (Cons kv d)
  obtain k' v' where kv: "kv = (k', v')" by (cases kv)
  from Cons show ?case
    by (cases "k' = k") (simp_all add: dict_keys_def kv)
qed

lemma dict_keys_set: "set (dict_keys (dict_set k v d)) = insert k (set (dict_keys d))"
  by (auto simp: dict_keys_dict_set)

lemma dict_keys_update:
  "set (dict_keys (dict_update d other)) = set (dict_keys d) \<union> set (dict_keys other)"
  unfolding dict_update_def
proof (induction other arbitrary: d)
  case Nil
  show ?case by (simp add: dict_keys_def)
next
  case (Cons kv other)
  obtain k v where kv: "kv = (k, v)" by (cases kv)
  have "set (dict_keys (kv # other)) = insert k (set (dict_keys other))"
    by (simp add: dict_keys_def kv)
  then show ?case
    by (simp add: Cons.IH kv dict_keys_set)
qed

lemma set_dict_set: "set (dict_set k v d) \<subseteq> insert (k, v) (set d)"
  by (induction d) (auto split: if_splits)

lemma dict_get_None_iff: "dict_get d k = None \<longleftrightarrow> k \<notin> set (dict_keys d)"
  by (simp add: dict_get_def dict_keys_def map_of_eq_None_iff)

lemma dict_get_in_set: "dict_get d k = Some v \<Longrightarrow> (k, v) \<in> set d"
  by (simp add: dict_get_def map_of_SomeD)

lemma dict_get_update_other:
  "k \<notin> set (dict_keys other) \<Longrightarrow> dict_get (dict_update d other) k = dict_get d k"
  unfolding dict_update_def
proof (induction other arbitrary: d)
  case Nil
  show ?case by simp
next
  case (Cons kv other)
  obtain k' v where kv: "kv = (k', v)" by (cases kv)
  with Cons.prems have "k \<noteq> k'" "k \<notin> set (dict_keys other)"
    by (auto simp: dict_keys_def)
  then show ?case
    by (simp add: Cons.IH kv dict_get_set)
qed

lemma dict_get_update_in:
  "k \<in> set (dict_keys other) \<Longrightarrow> \<forall>v. (k, v) \<in> set other \<longrightarrow> P v \<Longrightarrow>
   \<exists>v. dict_get (dict_update d other) k = Some v \<and> P v"
  unfolding dict_update_def
proof (induction other arbitrary: d)
  case Nil
  then show ?case by (simp add: dict_keys_def)
next
  case (Cons kv other)
  obtain k' v' where kv: "kv = (k', v')" by (cases kv)
  show ?case
  proof (cases "k \<in> set (dict_keys other)")
    case True
    with Cons.prems(2) Cons.IH [of "dict_set k' v' d"] show ?thesis
      by (simp add: kv)
  next
    case False
    with Cons.prems kv have k: "k = k'" and P: "P v'"
      by (auto simp: dict_keys_def)
    from False have "dict_get (fold (\<lambda>(k, v). dict_set k v) other (dict_set k' v' d)) k
        = dict_get (dict_set k' v' d) k"
      using dict_get_update_other [of k other "dict_set k' v' d"] by (simp add: dict_update_def)
    with k P show ?thesis
      by (simp add: kv dict_get_set)
  qed
qed

lemma join_nonempty: "xs \<noteq> [] \<Longrightarrow> \<forall>x \<in> set xs. x \<noteq> [] \<Longrightarrow> join sep xs \<noteq> []"
  by (induction sep xs rule: join.induct) auto


lemma dict_inv_set:
  "dict_inv K P d \<Longrightarrow> k \<in> K \<Longrightarrow> P k v \<Longrightarrow> dict_inv K P (dict_set k v d)"
  unfolding dict_inv_def using set_dict_set [of k v d] by (auto simp: dict_keys_set)

lemma dict_inv_update_in:
  "dict_inv K P other \<Longrightarrow> k \<in> K \<Longrightarrow> \<exists>v. dict_get (dict_update d other) k = Some v \<and> P k v"
  unfolding dict_inv_def by (rule dict_get_update_in) auto

lemma dict_inv_update_other:
  "dict_inv K P other \<Longrightarrow> k \<notin> K \<Longrightarrow> dict_get (dict_update d other) k = dict_get d k"
  unfolding dict_inv_def by (rule dict_get_update_other) simp

lemma funding_from_text_inv:
  "dict_inv {''fundraising_stage'', ''stage''} (\<lambda>k. nonempty_str) fd \<Longrightarrow>
   dict_inv {''fundraising_stage'', ''stage''} (\<lambda>k. nonempty_str) (funding_from_text t fd)"
  unfolding funding_from_text_def
  by (auto intro!: dict_inv_set simp: nonempty_str_def)

lemma funding_query_loop_inv:
  "dict_inv {''fundraising_stage'', ''stage''} (\<lambda>k. nonempty_str) fd \<Longrightarrow>
   dict_inv {''fundraising_stage'', ''stage''} (\<lambda>k. nonempty_str) (funding_query_loop fetched fd)"
proof (induction fetched arbitrary: fd)
  case Nil
  then show ?case by simp
next
  case (Cons f rest)
  show ?case
    using Cons.prems
    by (auto intro!: Cons.IH funding_from_text_inv split: sum.split)
qed

lemma funding_research_agent_inv:
  "dict_inv {''fundraising_stage'', ''stage''} (\<lambda>k. nonempty_str) (funding_research_agent fetch)"
  unfolding funding_research_agent_def
  by (rule funding_query_loop_inv) (simp add: dict_inv_def dict_keys_def nonempty_str_def)


lemma join_take_nonempty:
  "ms \<noteq> [] \<Longrightarrow> \<forall>m \<in> set ms. m \<noteq> [] \<Longrightarrow> 0 < n \<Longrightarrow> join sep (take n ms) \<noteq> []"
  by (rule join_nonempty) (auto dest: in_set_takeD)

lemma user_pattern_loop_inv:
  "dict_inv {''partnerships_integrations'', ''user_base_growth_rate''} (\<lambda>k. nonempty_str) cd \<Longrightarrow>
   \<forall>ms \<in> set mss. \<forall>m \<in> set ms. m \<noteq> [] \<Longrightarrow>
   dict_inv {''partnerships_integrations'', ''user_base_growth_rate''} (\<lambda>k. nonempty_str)
     (user_pattern_loop mss cd)"
proof (induction mss arbitrary: cd)
  case Nil
  then show ?case by simp
next
  case (Cons ms rest)
  show ?case
  proof (cases "ms = []")
    case True
    with Cons show ?thesis by simp
  next
    case False
    with Cons.prems(2) have "join '', '' (take 2 ms) \<noteq> []"
      by (intro join_take_nonempty) simp_all
    with False Cons.prems(1) show ?thesis
      by (auto intro!: dict_inv_set simp: nonempty_str_def)
  qed
qed

lemma competition_from_page_inv:
  assumes "dict_inv {''partnerships_integrations'', ''user_base_growth_rate''} (\<lambda>k. nonempty_str) cd"
    and "\<forall>ms \<in> set (partnership_matches page) \<union> set (user_matches page). \<forall>m \<in> set ms. m \<noteq> []"
  shows "dict_inv {''partnerships_integrations'', ''user_base_growth_rate''} (\<lambda>k. nonempty_str)
     (competition_from_page page cd)"
proof -
  define ps where "ps = concat (map (take 3) (partnership_matches page))"
  from assms(2) have ne: "\<forall>m \<in> set ps. m \<noteq> []"
    unfolding ps_def by (auto dest: in_set_takeD)
  have "dict_inv {''partnerships_integrations'', ''user_base_growth_rate''}
      (\<lambda>k. nonempty_str)
      (if ps \<noteq> [] then dict_set ''partnerships_integrations'' (JStr (join '', '' ps)) cd else cd)"
  proof (cases "ps = []")
    case True
    with assms(1) show ?thesis by simp
  next
    case False
    then have "join '', '' ps \<noteq> []"
      using ne by (rule join_nonempty)
    with False assms(1) show ?thesis
      by (auto intro!: dict_inv_set simp: nonempty_str_def)
  qed
  with assms(2) show ?thesis
    unfolding competition_from_page_def Let_def ps_def
    by (intro user_pattern_loop_inv) auto
qed

lemma competition_query_loop_inv:
  "dict_inv {''partnerships_integrations'', ''user_base_growth_rate''} (\<lambda>k. nonempty_str) cd \<Longrightarrow>
   \<forall>f \<in> set fetched. competition_matches_nonempty f \<Longrightarrow>
   dict_inv {''partnerships_integrations'', ''user_base_growth_rate''} (\<lambda>k. nonempty_str)
     (competition_query_loop fetched cd)"
proof (induction fetched arbitrary: cd)
  case Nil
  then show ?case by simp
next
  case (Cons f rest)
  have "dict_inv {''partnerships_integrations'', ''user_base_growth_rate''} (\<lambda>k. nonempty_str)
     (case f of Inl e \<Rightarrow> cd
      | Inr (status_code, page) \<Rightarrow>
          if status_code = 200 then competition_from_page page cd else cd)"
  proof (cases f)
    case (Inl e)
    with Cons.prems(1) show ?thesis by simp
  next
    case (Inr fetched)
    obtain status_code page where f: "fetched = (status_code, page)" by (cases fetched)
    from Cons.prems(2) have "competition_matches_nonempty f" by simp
    with Inr f have "\<forall>ms \<in> set (partnership_matches page) \<union> set (user_matches page).
        \<forall>m \<in> set ms. m \<noteq> []"
      by (simp add: competition_matches_nonempty_def)
    with Cons.prems(1) have "dict_inv {''partnerships_integrations'', ''user_base_growth_rate''}
        (\<lambda>k. nonempty_str) (competition_from_page page cd)"
      by (rule competition_from_page_inv)
    with Cons.prems(1) Inr f show ?thesis by simp
  qed
  with Cons.prems(2) show ?case
    by (simp add: Cons.IH)
qed

lemma competition_analysis_agent_inv:
  "matches_nonempty w \<Longrightarrow>
   dict_inv {''partnerships_integrations'', ''user_base_growth_rate''} (\<lambda>k. nonempty_str)
     (competition_analysis_agent (competition_fetch w))"
  unfolding competition_analysis_agent_def
  by (rule competition_query_loop_inv)
     (auto simp: dict_inv_def dict_keys_def nonempty_str_def matches_nonempty_def)

lemma pricing_loop_inv:
  "dict_inv K (\<lambda>k v. k \<in> F \<longrightarrow> nonempty_str v) wd \<Longrightarrow> ''pricing'' \<in> K \<Longrightarrow>
   \<forall>ms \<in> set mss. \<forall>m \<in> set ms. m \<noteq> [] \<Longrightarrow>
   dict_inv K (\<lambda>k v. k \<in> F \<longrightarrow> nonempty_str v) (pricing_loop mss wd)"
proof (induction mss arbitrary: wd)
  case Nil
  then show ?case by simp
next
  case (Cons ms rest)
  show ?case
  proof (cases "ms = []")
    case True
    with Cons show ?thesis by simp
  next
    case False
    with Cons.prems(3) have "join '', '' (take 3 ms) \<noteq> []"
      by (intro join_take_nonempty) simp_all
    with False Cons.prems(1,2) show ?thesis
      by (auto intro!: dict_inv_set simp: nonempty_str_def)
  qed
qed

lemma website_analysis_agent_inv:
  assumes "site_matches_nonempty fetched"
  shows "dict_inv {''website'', ''business_model'', ''pricing'', ''product'', ''api_integration''}
     (\<lambda>k v. k \<in> {''business_model'', ''pricing'', ''api_integration''} \<longrightarrow> nonempty_str v)
     (website_analysis_agent url fetched)"
proof -
  define K where "K = {''website'', ''business_model'', ''pricing'', ''product'', ''api_integration''}"
  define F where "F = {''business_model'', ''pricing'', ''api_integration''}"
  define wd0 where "wd0 = [(''website'', JStr url), (''business_model'', JStr ''Unknown''),
             (''pricing'', JStr ''Unknown''), (''product'', JStr ''Unknown''),
             (''api_integration'', JStr ''Unknown'')]"
  have K: "''business_model'' \<in> K" "''pricing'' \<in> K" "''product'' \<in> K" "''api_integration'' \<in> K"
    by (simp_all add: K_def)
  have F: "''product'' \<notin> F"
    by (simp add: F_def)
  have 0: "dict_inv K (\<lambda>k v. k \<in> F \<longrightarrow> nonempty_str v) wd0"
    by (simp add: dict_inv_def dict_keys_def nonempty_str_def wd0_def K_def F_def)
  have set: "dict_inv K (\<lambda>k v. k \<in> F \<longrightarrow> nonempty_str v) (dict_set k (JStr s) d)"
    if "dict_inv K (\<lambda>k v. k \<in> F \<longrightarrow> nonempty_str v) d" "k \<in> K" "s \<noteq> [] \<or> k \<notin> F" for k s d
    using that by (intro dict_inv_set) (auto simp: nonempty_str_def)
  have "dict_inv K (\<lambda>k v. k \<in> F \<longrightarrow> nonempty_str v) (website_analysis_agent url fetched)"
  proof (cases fetched)
    case (Inl e)
    with 0 show ?thesis by (simp add: website_analysis_agent_def wd0_def)
  next
    case (Inr f)
    obtain status_code page where f: "f = (status_code, page)" by (cases f)
    show ?thesis
    proof (cases "status_code = 200")
      case False
      with 0 Inr f show ?thesis by (simp add: website_analysis_agent_def wd0_def)
    next
      case True
      from assms Inr f have m: "\<forall>ms \<in> set (price_matches page). \<forall>m \<in> set ms. m \<noteq> []"
        by (simp add: site_matches_nonempty_def)
      define wd1 where "wd1 =
        (if any_in [''saas'', ''software as a service'', ''subscription''] (page_text page)
         then dict_set ''business_model'' (JStr ''SaaS'') wd0
         else if any_in [''marketplace'', ''platform''] (page_text page)
         then dict_set ''business_model'' (JStr ''Platform'') wd0
         else if any_in [''consulting'', ''services''] (page_text page)
         then dict_set ''business_model'' (JStr ''Services'') wd0
         else wd0)"
      have 1: "dict_inv K (\<lambda>k v. k \<in> F \<longrightarrow> nonempty_str v) wd1"
        unfolding wd1_def using 0 K by (simp add: set)
      have 2: "dict_inv K (\<lambda>k v. k \<in> F \<longrightarrow> nonempty_str v) (pricing_loop (price_matches page) wd1)"
        using 1 K(2) m by (rule pricing_loop_inv)
      define wd3 where "wd3 =
        (if any_in [''api'', ''developer'', ''integration''] (page_text page)
         then dict_set ''api_integration'' (JStr ''Yes'') (pricing_loop (price_matches page) wd1)
         else pricing_loop (price_matches page) wd1)"
      have 3: "dict_inv K (\<lambda>k v. k \<in> F \<longrightarrow> nonempty_str v) wd3"
        unfolding wd3_def using 2 K by (simp add: set)
      have 4: "dict_inv K (\<lambda>k v. k \<in> F \<longrightarrow> nonempty_str v)
        (case meta_description page of
           Some content \<Rightarrow> dict_set ''product'' (JStr (take 200 content)) wd3
         | None \<Rightarrow> wd3)"
        using 3 K F by (simp add: set split: option.split)
      have "website_analysis_agent url fetched =
        (case meta_description page of
           Some content \<Rightarrow> dict_set ''product'' (JStr (take 200 content)) wd3
         | None \<Rightarrow> wd3)"
        unfolding website_analysis_agent_def Let_def wd3_def wd1_def wd0_def
        using True Inr f by simp
      with 4 show ?thesis by simp
    qed
  qed
  then show ?thesis
    by (simp add: K_def F_def)
qed


lemma funding_loop_inv:
  "dict_inv K (\<lambda>k v. v \<noteq> []) fd \<Longrightarrow> ''stage'' \<in> K \<Longrightarrow>
   dict_inv K (\<lambda>k v. v \<noteq> []) (fst (funding_loop news fd))"
  by (induction news) (auto simp: Let_def intro!: dict_inv_set)

lemma stage_from_registry_inv:
  "dict_inv K (\<lambda>k v. v \<noteq> []) fd \<Longrightarrow> ''stage'' \<in> K \<Longrightarrow>
   dict_inv K (\<lambda>k v. v \<noteq> []) (stage_from_registry corp fd)"
  by (auto simp: stage_from_registry_def Let_def intro!: dict_inv_set split: option.split)

lemma detect_stage_inv:
  "dict_inv K (\<lambda>k v. v \<noteq> []) fd \<Longrightarrow> ''stage'' \<in> K \<Longrightarrow>
   dict_inv K (\<lambda>k v. v \<noteq> []) (detect_stage sd fd)"
  using funding_loop_inv [of K fd "news_mentions sd"]
  by (auto simp: detect_stage_def Let_def intro!: stage_from_registry_inv split: prod.split)

lemma coverage_indicators_nonempty:
  "\<forall>r \<in> set (jurisdiction_indicators corp [] @ text_indicators t []). r \<noteq> []"
  by (auto simp: jurisdiction_indicators_def text_indicators_def Let_def
      split: option.splits if_splits)

lemma detect_coverage_inv:
  assumes "dict_inv K (\<lambda>k v. v \<noteq> []) fd" "''coverage'' \<in> K" "is_set_listing sl"
  shows "dict_inv K (\<lambda>k v. v \<noteq> []) (detect_coverage sl sd fd)"
proof -
  define regions where "regions = jurisdiction_indicators (corporate_data sd) []
      @ text_indicators (coverage_all_text sd) []"
  have r: "text_indicators (coverage_all_text sd) (jurisdiction_indicators (corporate_data sd) [])
      = regions"
    unfolding regions_def by (rule text_indicators_append)
  have ne: "\<forall>r \<in> set regions. r \<noteq> []"
    unfolding regions_def by (rule coverage_indicators_nonempty)
  from assms(3) have s: "set (sl regions) = set regions"
    by (simp add: is_set_listing_def)
  show ?thesis
  proof (cases "regions = []")
    case True
    with assms(1) r show ?thesis
      by (simp add: detect_coverage_def Let_def)
  next
    case False
    with s have "sl regions \<noteq> []"
      by (metis set_empty)
    moreover from ne s have "\<forall>r \<in> set (sl regions). r \<noteq> []"
      by simp
    ultimately have "join ''/'' (sl regions) \<noteq> []"
      by (rule join_nonempty)
    with False assms(1,2) r show ?thesis
      by (simp add: detect_coverage_def Let_def dict_inv_set)
  qed
qed

lemma ai_label_nonempty: "ai_label n \<noteq> []"
  by (simp add: ai_label_def)

lemma fallback_inv:
  assumes "is_set_listing sl"
    and "enhanced_fallback_analysis sl company_name sd = Inr fallback_data"
  shows "dict_inv (set llm_schema_keys) (\<lambda>k v. v \<noteq> []) fallback_data"
proof -
  let ?K = "set llm_schema_keys"
  have K: "''ai_powered_legal_chatbot'' \<in> ?K" "''stage'' \<in> ?K" "''coverage'' \<in> ?K"
    "''comment'' \<in> ?K"
    by (simp_all add: llm_schema_keys_def)
  have 0: "dict_inv ?K (\<lambda>k v. v \<noteq> []) (fallback_defaults company_name)"
    by (simp add: dict_inv_def dict_keys_def fallback_defaults_def llm_schema_keys_def)
  define fd1 where "fd1 = dict_set ''ai_powered_legal_chatbot''
      (ai_label (ai_indicator_score company_name sd)) (fallback_defaults company_name)"
  have 1: "dict_inv ?K (\<lambda>k v. v \<noteq> []) fd1"
    unfolding fd1_def using 0 K(1) ai_label_nonempty by (rule dict_inv_set)
  define fd3 where "fd3 = detect_coverage sl sd (detect_stage sd fd1)"
  have 3: "dict_inv ?K (\<lambda>k v. v \<noteq> []) fd3"
    unfolding fd3_def using 1 K assms(1) by (intro detect_coverage_inv detect_stage_inv)
  from assms(2) obtain parts where
    "fallback_data =
      (if parts \<noteq> []
       then dict_set ''comment''
              (''Enhanced analysis using FREE APIs for '' @ company_name
                 @ ''. Additional insights: '' @ join ''; '' parts) fd3
       else fd3)"
    unfolding fallback_result fd3_def fd1_def by (auto split: sum.splits)
  with 3 K(4) show ?thesis
    by (auto intro!: dict_inv_set)
qed

lemma set_item_keys: "set_item d k v = Inr d' \<Longrightarrow> set (dict_keys d) \<subseteq> set (dict_keys d')"
  by (auto simp: set_item_def dict_keys_set split: json.splits)

lemma update_from_seq_keys:
  "update_from_seq d xs = Inr d' \<Longrightarrow> set (dict_keys d) \<subseteq> set (dict_keys d')"
proof (induction xs arbitrary: d)
  case Nil
  then show ?case by simp
next
  case (Cons x xs)
  from Cons.prems obtain k v d1 where "set_item d k v = Inr d1" "update_from_seq d1 xs = Inr d'"
    by (auto split: sum.splits list.splits)
  with Cons.IH [of d1] set_item_keys [of d k v d1] show ?case
    by blast
qed

lemma py_update_keys: "py_update d v = Inr d' \<Longrightarrow> set (dict_keys d) \<subseteq> set (dict_keys d')"
  by (auto simp: py_update_def dict_keys_update dest: update_from_seq_keys split: json.splits)

lemma initial_profile_key_list:
  "dict_keys (initial_profile company_name company now) = identity_keys @ attribute_keys"
  unfolding initial_profile_def dict_keys_def identity_keys_def attribute_keys_def
  by (simp only: list.map fst_conv append.simps)

lemma initial_profile_keys:
  "set (dict_keys (initial_profile company_name company now))
     = set identity_keys \<union> set attribute_keys"
  by (simp only: initial_profile_key_list set_append)

text \<open>The profile before the data of the language-model agent is merged.\<close>

lemma research_steps:
  assumes "research_single_company json_loads w company_name company = Inr profile"
  obtains llm_data p2 where
    "llm_research_agent json_loads (groq_attempts w) (set_order w) company_name
       (web_search_agent (adapter_outcomes w)) = Inr llm_data"
    "py_update
       (if found_website w \<noteq> []
        then dict_update (initial_profile company_name company (clock w))
               (website_analysis_agent (found_website w) (site_fetch w))
        else initial_profile company_name company (clock w)) llm_data = Inr p2"
    "profile = dict_update (dict_update p2 (funding_research_agent (funding_fetch w)))
         (competition_analysis_agent (competition_fetch w))"
  using assms unfolding research_single_company_def Let_def found_website_def
  by (auto split: sum.splits)

lemma research_keys:
  assumes "research_single_company json_loads w company_name company = Inr profile"
  shows "set identity_keys \<union> set attribute_keys \<subseteq> set (dict_keys profile)"
proof -
  define p1 where "p1 =
    (if found_website w \<noteq> []
     then dict_update (initial_profile company_name company (clock w))
            (website_analysis_agent (found_website w) (site_fetch w))
     else initial_profile company_name company (clock w))"
  have 1: "set identity_keys \<union> set attribute_keys \<subseteq> set (dict_keys p1)"
    unfolding p1_def by (auto simp only: dict_keys_update initial_profile_keys split: if_splits)
  from assms obtain llm_data p2 where p2: "py_update p1 llm_data = Inr p2"
    and p: "profile = dict_update (dict_update p2 (funding_research_agent (funding_fetch w)))
         (competition_analysis_agent (competition_fetch w))"
    unfolding p1_def by (rule research_steps)
  from p2 have "set (dict_keys p1) \<subseteq> set (dict_keys p2)"
    by (rule py_update_keys)
  with 1 have "set identity_keys \<union> set attribute_keys \<subseteq> set (dict_keys p2)"
    by (rule subset_trans)
  then show ?thesis
    unfolding p dict_keys_update by blast
qed

lemma competition_keys:
  "set (dict_keys (competition_analysis_agent fetch))
     = {''partnerships_integrations'', ''user_base_growth_rate''}"
proof -
  define K where "K = {''partnerships_integrations'', ''user_base_growth_rate''}"
  have kp: "insert ''partnerships_integrations'' K = K"
    and ku: "insert ''user_base_growth_rate'' K = K"
    by (auto simp: K_def)
  have u: "set (dict_keys (user_pattern_loop mss cd)) = K" if "set (dict_keys cd) = K"
    for mss cd
    using that by (induction mss arbitrary: cd) (simp_all add: dict_keys_set ku)
  have p: "set (dict_keys (competition_from_page page cd)) = K" if "set (dict_keys cd) = K"
    for page cd
    unfolding competition_from_page_def Let_def
    by (rule u) (simp add: that dict_keys_set kp)
  have l: "set (dict_keys (competition_query_loop fetched cd)) = K"
    if "set (dict_keys cd) = K" for fetched cd
    using that
  proof (induction fetched arbitrary: cd)
    case Nil
    then show ?case by simp
  next
    case (Cons f rest)
    have "set (dict_keys (case f of Inl e \<Rightarrow> cd
          | Inr (status_code, page) \<Rightarrow>
              if status_code = 200 then competition_from_page page cd else cd)) = K"
      using Cons.prems p [of cd] by (simp split: sum.split prod.split)
    then show ?case
      unfolding competition_query_loop.simps by (rule Cons.IH)
  qed
  have "set (dict_keys [(''partnerships_integrations'', JStr ''Unknown''),
        (''user_base_growth_rate'', JStr ''Unknown'')]) = K"
    by (simp add: dict_keys_def K_def)
  then show ?thesis
    unfolding competition_analysis_agent_def K_def [symmetric] by (rule l)
qed

lemma funding_keys:
  "set (dict_keys (funding_research_agent fetch)) = {''fundraising_stage'', ''stage''}"
  using funding_research_agent_inv [of fetch] by (simp add: dict_inv_def)

lemma fallback_json_inv:
  assumes "is_set_listing sl"
    and "fallback_json sl company_name sd = Inr v"
  obtains kvs where "v = JDict kvs" "dict_inv (set llm_schema_keys) (\<lambda>k. nonempty_str) kvs"
proof -
  from assms(2) obtain fd where fd: "enhanced_fallback_analysis sl company_name sd = Inr fd"
    and v: "v = JDict (map (\<lambda>(k, v). (k, JStr v)) fd)"
    by (auto simp: fallback_json_def split: sum.splits)
  have "map fst (map (\<lambda>(k, v). (k, JStr v)) fd) = map fst fd"
    by (induction fd) auto
  with fallback_inv [OF assms(1) fd]
  have "dict_inv (set llm_schema_keys) (\<lambda>k. nonempty_str) (map (\<lambda>(k, v). (k, JStr v)) fd)"
    by (auto simp: dict_inv_def dict_keys_def nonempty_str_def)
  with v that show ?thesis
    by blast
qed


lemma schema_not_competition:
  "k \<in> set llm_schema_keys \<Longrightarrow> k \<notin> {''partnerships_integrations'', ''user_base_growth_rate''}"
  by (auto simp: llm_schema_keys_def)

lemma schema_not_funding:
  "k \<in> set llm_schema_keys \<Longrightarrow> k \<noteq> ''stage'' \<Longrightarrow> k \<notin> {''fundraising_stage'', ''stage''}"
  by (auto simp: llm_schema_keys_def)

lemma website_keys_elsewhere:
  "k \<in> set website_keys \<Longrightarrow>
     k \<notin> set llm_schema_keys \<and> k \<notin> {''fundraising_stage'', ''stage''}
     \<and> k \<notin> {''partnerships_integrations'', ''user_base_growth_rate''}"
  by (auto simp: website_keys_def llm_schema_keys_def)

lemma website_keys_initial:
  "k \<in> set website_keys \<Longrightarrow>
     dict_get (initial_profile company_name company now) k = Some (JStr [])"
  by (auto simp: website_keys_def initial_profile_def dict_get_def)

lemma filled_iff: "filled profile k \<longleftrightarrow> (\<exists>v. dict_get profile k = Some v \<and> nonempty_str v)"
  by (simp add: filled_def split: option.split)

lemma research_funding_filled:
  assumes "research_single_company json_loads w company_name company = Inr profile"
    and "k \<in> {''fundraising_stage'', ''stage''}"
  shows "filled profile k"
proof -
  from assms(1) obtain llm_data p2 where
    p: "profile = dict_update (dict_update p2 (funding_research_agent (funding_fetch w)))
         (competition_analysis_agent (competition_fetch w))"
    by (rule research_steps)
  from assms(2) have "k \<notin> set (dict_keys (competition_analysis_agent (competition_fetch w)))"
    unfolding competition_keys by auto
  then have "dict_get profile k
      = dict_get (dict_update p2 (funding_research_agent (funding_fetch w))) k"
    unfolding p by (rule dict_get_update_other)
  with dict_inv_update_in [OF funding_research_agent_inv assms(2), of p2 "funding_fetch w"]
  show ?thesis
    by (simp add: filled_iff)
qed

lemma research_competition_filled:
  assumes "research_single_company json_loads w company_name company = Inr profile"
    and "matches_nonempty w"
    and "k \<in> {''partnerships_integrations'', ''user_base_growth_rate''}"
  shows "filled profile k"
proof -
  from assms(1) obtain llm_data p2 where
    p: "profile = dict_update (dict_update p2 (funding_research_agent (funding_fetch w)))
         (competition_analysis_agent (competition_fetch w))"
    by (rule research_steps)
  from dict_inv_update_in [OF competition_analysis_agent_inv [OF assms(2)] assms(3)]
  show ?thesis
    unfolding p filled_iff by blast
qed

text \<open>On the fallback path the profile is the initial profile, updated in turn with the
  data of the website analysis, of the fallback heuristic, of the funding search and of the
  competition search.\<close>

lemma research_fallback_steps:
  assumes "research_single_company json_loads w company_name company = Inr profile"
    and "spec_llm_reply json_loads (groq_attempts w) = None"
    and "is_set_listing (set_order w)"
  obtains kvs where "dict_inv (set llm_schema_keys) (\<lambda>k. nonempty_str) kvs"
    "profile =
       dict_update
         (dict_update
            (dict_update
               (if found_website w \<noteq> []
                then dict_update (initial_profile company_name company (clock w))
                       (website_analysis_agent (found_website w) (site_fetch w))
                else initial_profile company_name company (clock w)) kvs)
            (funding_research_agent (funding_fetch w)))
         (competition_analysis_agent (competition_fetch w))"
proof -
  define p1 where "p1 =
    (if found_website w \<noteq> []
     then dict_update (initial_profile company_name company (clock w))
            (website_analysis_agent (found_website w) (site_fetch w))
     else initial_profile company_name company (clock w))"
  from assms(1) obtain llm_data p2 where
    l: "llm_research_agent json_loads (groq_attempts w) (set_order w) company_name
       (web_search_agent (adapter_outcomes w)) = Inr llm_data"
    and u: "py_update p1 llm_data = Inr p2"
    and p: "profile = dict_update (dict_update p2 (funding_research_agent (funding_fetch w)))
         (competition_analysis_agent (competition_fetch w))"
    unfolding p1_def by (rule research_steps)
  from l assms(2) have "fallback_json (set_order w) company_name
      (web_search_agent (adapter_outcomes w)) = Inr llm_data"
    by (simp add: llm_research_agent_reply split: if_splits)
  with assms(3) obtain kvs where k: "llm_data = JDict kvs"
    and i: "dict_inv (set llm_schema_keys) (\<lambda>k. nonempty_str) kvs"
    by (rule fallback_json_inv)
  from u k have "p2 = dict_update p1 kvs"
    by (simp add: py_update_def)
  with i p that show ?thesis
    unfolding p1_def by blast
qed

lemma research_fallback_filled:
  assumes "research_single_company json_loads w company_name company = Inr profile"
    and "spec_llm_reply json_loads (groq_attempts w) = None"
    and "is_set_listing (set_order w)"
    and "k \<in> set llm_schema_keys"
  shows "filled profile k"
proof (cases "k = ''stage''")
  case True
  with research_funding_filled [OF assms(1), of k] show ?thesis
    by simp
next
  case False
  from assms(1-3) obtain kvs p1 where
    i: "dict_inv (set llm_schema_keys) (\<lambda>k. nonempty_str) kvs"
    and p: "profile =
       dict_update (dict_update (dict_update p1 kvs) (funding_research_agent (funding_fetch w)))
         (competition_analysis_agent (competition_fetch w))"
    by (rule research_fallback_steps)
  from assms(4) have "k \<notin> set (dict_keys (competition_analysis_agent (competition_fetch w)))"
    unfolding competition_keys by (rule schema_not_competition)
  then have "dict_get profile k
      = dict_get (dict_update (dict_update p1 kvs) (funding_research_agent (funding_fetch w))) k"
    unfolding p by (rule dict_get_update_other)
  also from assms(4) False
  have "k \<notin> set (dict_keys (funding_research_agent (funding_fetch w)))"
    unfolding funding_keys by (rule schema_not_funding)
  then have "dict_get (dict_update (dict_update p1 kvs)
      (funding_research_agent (funding_fetch w))) k = dict_get (dict_update p1 kvs) k"
    by (rule dict_get_update_other)
  finally show ?thesis
    using dict_inv_update_in [OF i assms(4), of p1] by (simp add: filled_iff)
qed

lemma research_fallback_website_keys:
  assumes "research_single_company json_loads w company_name company = Inr profile"
    and "spec_llm_reply json_loads (groq_attempts w) = None"
    and "is_set_listing (set_order w)"
    and "k \<in> set website_keys"
  shows "dict_get profile k =
     dict_get (if found_website w \<noteq> []
               then dict_update (initial_profile company_name company (clock w))
                      (website_analysis_agent (found_website w) (site_fetch w))
               else initial_profile company_name company (clock w)) k"
proof -
  from assms(1-3) obtain kvs where
    i: "dict_inv (set llm_schema_keys) (\<lambda>k. nonempty_str) kvs"
    and p: "profile =
       dict_update
         (dict_update
            (dict_update
               (if found_website w \<noteq> []
                then dict_update (initial_profile company_name company (clock w))
                       (website_analysis_agent (found_website w) (site_fetch w))
                else initial_profile company_name company (clock w)) kvs)
            (funding_research_agent (funding_fetch w)))
         (competition_analysis_agent (competition_fetch w))"
    by (rule research_fallback_steps)
  note e = website_keys_elsewhere [OF assms(4)]
  from e have "k \<notin> set (dict_keys (competition_analysis_agent (competition_fetch w)))"
    unfolding competition_keys by simp
  moreover from e have "k \<notin> set (dict_keys (funding_research_agent (funding_fetch w)))"
    unfolding funding_keys by simp
  moreover from e i have "k \<notin> set (dict_keys kvs)"
    by (simp add: dict_inv_def)
  ultimately show ?thesis
    unfolding p by (simp add: dict_get_update_other)
qed

lemma research_fallback_blank:
  assumes "research_single_company json_loads w company_name company = Inr profile"
    and "spec_llm_reply json_loads (groq_attempts w) = None"
    and "is_set_listing (set_order w)"
    and "found_website w = []"
    and "k \<in> set website_keys"
  shows "blank profile k"
  unfolding blank_def research_fallback_website_keys [OF assms(1-3,5)]
  using assms(4) website_keys_initial [OF assms(5)] by simp

lemma research_fallback_website_filled:
  assumes "research_single_company json_loads w company_name company = Inr profile"
    and "spec_llm_reply json_loads (groq_attempts w) = None"
    and "is_set_listing (set_order w)"
    and "found_website w \<noteq> []"
    and "matches_nonempty w"
    and "k \<in> {''business_model'', ''pricing'', ''api_integration''}"
  shows "filled profile k"
proof -
  from assms(6) have k: "k \<in> set website_keys"
    and k': "k \<in> {''website'', ''business_model'', ''pricing'', ''product'', ''api_integration''}"
    by (auto simp: website_keys_def)
  from assms(5) have "site_matches_nonempty (site_fetch w)"
    by (simp add: matches_nonempty_def)
  from dict_inv_update_in [OF website_analysis_agent_inv [OF this] k',
      of "initial_profile company_name company (clock w)" "found_website w"] assms(6)
  have "\<exists>v. dict_get (dict_update (initial_profile company_name company (clock w))
      (website_analysis_agent (found_website w) (site_fetch w))) k = Some v \<and> nonempty_str v"
    by blast
  then show ?thesis
    unfolding filled_iff research_fallback_website_keys [OF assms(1-3) k]
    using assms(4) by simp
qed


lemma research_returns:
  "\<not> spec_aborts json_loads w \<Longrightarrow>
   \<exists>profile. research_single_company json_loads w company_name company = Inr profile"
  using research_isl [of json_loads w company_name company]
  by (cases "research_single_company json_loads w company_name company") simp_all

lemma attribute_keys_count: "length attribute_keys = 18" "distinct attribute_keys"
  by (simp_all add: attribute_keys_def)

lemma all_fail_world:
  "found_website all_fail = []" "matches_nonempty all_fail"
  "is_set_listing (set_order all_fail)" "\<not> spec_aborts json_loads all_fail"
proof -
  show "found_website all_fail = []"
    by (simp add: found_website_def web_search_agent_bundle all_fail_bundle sd_empty_def)
  show "matches_nonempty all_fail"
    by (simp add: matches_nonempty_def all_fail_def competition_matches_nonempty_def
          site_matches_nonempty_def)
  show "is_set_listing (set_order all_fail)"
    by (simp add: all_fail_def remdups_listing)
  show "\<not> spec_aborts json_loads all_fail"
    using all_fail_completes [of json_loads "[]" JNull] by (simp add: research_isl)
qed

lemma website_found_world:
  "found_website website_found = ''https://acme.example''" "matches_nonempty website_found"
  "is_set_listing (set_order website_found)"
  "spec_llm_reply json_loads (groq_attempts website_found) = None"
  "\<not> spec_aborts json_loads website_found"
proof -
  have b: "spec_bundle (adapter_outcomes website_found)
      = sd_empty\<lparr>website := ''https://acme.example''\<rparr>"
    by (simp add: spec_bundle_def fragment_or_def website_found_def all_fail_def
          compile_content_def sd_empty_def)
  show "found_website website_found = ''https://acme.example''"
    by (simp add: found_website_def web_search_agent_bundle b)
  show "matches_nonempty website_found"
    by (simp add: matches_nonempty_def website_found_def all_fail_def
          competition_matches_nonempty_def site_matches_nonempty_def)
  show "is_set_listing (set_order website_found)"
    by (simp add: website_found_def all_fail_def remdups_listing)
  show r: "spec_llm_reply json_loads (groq_attempts website_found) = None"
    using all_fail_no_reply [of json_loads] by (simp add: website_found_def)
  show "\<not> spec_aborts json_loads website_found"
    by (simp add: spec_aborts_def Let_def b r null_repo_count_def null_points_def sd_empty_def)
qed

lemma reply_empty_object_world:
  "found_website reply_empty_object = []"
  "spec_llm_reply json_loads_sample (groq_attempts reply_empty_object) = Some (JDict [])"
  "\<not> spec_aborts json_loads_sample reply_empty_object"
proof -
  have b: "spec_bundle (adapter_outcomes reply_empty_object) = sd_empty"
    using all_fail_bundle by (simp add: reply_empty_object_def)
  show "found_website reply_empty_object = []"
    by (simp add: found_website_def web_search_agent_bundle b sd_empty_def)
  show r: "spec_llm_reply json_loads_sample (groq_attempts reply_empty_object)
      = Some (JDict [])"
    by (simp add: reply_empty_object_def all_fail_def spec_llm_reply_constant spec_verdict_def
          json_loads_sample_def)
  show "\<not> spec_aborts json_loads_sample reply_empty_object"
    by (simp add: spec_aborts_def Let_def b r sd_empty_no_null py_update_def)
qed

lemma reply_empty_object_coverage:
  assumes "research_single_company json_loads_sample reply_empty_object ''Acme'' company_acme
      = Inr profile"
  shows "dict_get profile ''coverage'' = Some (JStr [])"
proof -
  note w = reply_empty_object_world
  from assms obtain llm_data p2 where
    l: "llm_research_agent json_loads_sample (groq_attempts reply_empty_object)
         (set_order reply_empty_object) ''Acme''
         (web_search_agent (adapter_outcomes reply_empty_object)) = Inr llm_data"
    and u: "py_update (initial_profile ''Acme'' company_acme (clock reply_empty_object))
         llm_data = Inr p2"
    and p: "profile =
       dict_update (dict_update p2 (funding_research_agent (funding_fetch reply_empty_object)))
         (competition_analysis_agent (competition_fetch reply_empty_object))"
    by (rule research_steps) (simp add: w(1))
  from l have "llm_data = JDict []"
    by (simp add: llm_research_agent_reply w(2) split: if_splits)
  with u have p2: "p2 = initial_profile ''Acme'' company_acme (clock reply_empty_object)"
    by (simp add: py_update_def dict_update_def)
  have "dict_get profile ''coverage'' = dict_get p2 ''coverage''"
    unfolding p by (simp add: dict_get_update_other competition_keys funding_keys)
  then show ?thesis
    unfolding p2 by (simp add: initial_profile_def dict_get_def)
qed

text \<open>
  Claim C1, as amended. Every profile that the build returns, on either path, has the
  eighteen attribute keys, and its stage and fundraising stage are non-empty strings, as
  are its partnerships and its user numbers. On the fallback path the eleven attributes of
  the language-model schema are non-empty strings as well; the attributes of the website
  analysis are the empty string when no website was found, and the business model, the
  pricing and the API integration are non-empty when one was found. The non-empty values
  taken from regular-expression matches rest on the matches being non-empty, that of the
  coverage on the interpreter listing every element of a set. The build returns unless one
  of the conditions of an abort holds.
\<close>

theorem profile_attributes_present:
  "(research_single_company json_loads w company_name company = Inr profile \<longrightarrow>
      set attribute_keys \<subseteq> set (dict_keys profile)
      \<and> filled profile ''stage'' \<and> filled profile ''fundraising_stage''
      \<and> (matches_nonempty w \<longrightarrow>
           filled profile ''partnerships_integrations''
           \<and> filled profile ''user_base_growth_rate'')
      \<and> (spec_llm_reply json_loads (groq_attempts w) = None \<and> is_set_listing (set_order w) \<longrightarrow>
           list_all (filled profile) llm_schema_keys
           \<and> (found_website w = [] \<longrightarrow> list_all (blank profile) website_keys)
           \<and> (found_website w \<noteq> [] \<and> matches_nonempty w \<longrightarrow>
                filled profile ''business_model'' \<and> filled profile ''pricing''
                \<and> filled profile ''api_integration'')))
   \<and> (\<not> spec_aborts json_loads w \<longrightarrow>
        (\<exists>profile. research_single_company json_loads w company_name company = Inr profile))
   \<and> length attribute_keys = 18 \<and> distinct attribute_keys"
proof -
  have "set attribute_keys \<subseteq> set (dict_keys profile)
      \<and> filled profile ''stage'' \<and> filled profile ''fundraising_stage''
      \<and> (matches_nonempty w \<longrightarrow>
           filled profile ''partnerships_integrations''
           \<and> filled profile ''user_base_growth_rate'')
      \<and> (spec_llm_reply json_loads (groq_attempts w) = None \<and> is_set_listing (set_order w) \<longrightarrow>
           list_all (filled profile) llm_schema_keys
           \<and> (found_website w = [] \<longrightarrow> list_all (blank profile) website_keys)
           \<and> (found_website w \<noteq> [] \<and> matches_nonempty w \<longrightarrow>
                filled profile ''business_model'' \<and> filled profile ''pricing''
                \<and> filled profile ''api_integration''))"
    if r: "research_single_company json_loads w company_name company = Inr profile"
  proof (intro conjI impI)
    show "set attribute_keys \<subseteq> set (dict_keys profile)"
      using research_keys [OF r] by simp
    show "filled profile ''stage''" "filled profile ''fundraising_stage''"
      by (rule research_funding_filled [OF r], simp)+
    show "filled profile ''partnerships_integrations''" if "matches_nonempty w"
      using r that by (rule research_competition_filled) simp
    show "filled profile ''user_base_growth_rate''" if "matches_nonempty w"
      using r that by (rule research_competition_filled) simp
  next
    assume a: "spec_llm_reply json_loads (groq_attempts w) = None \<and> is_set_listing (set_order w)"
    then have n: "spec_llm_reply json_loads (groq_attempts w) = None"
      and s: "is_set_listing (set_order w)"
      by simp_all
    show "list_all (filled profile) llm_schema_keys"
      unfolding list_all_iff using research_fallback_filled [OF r n s] by blast
    show "list_all (blank profile) website_keys" if "found_website w = []"
      unfolding list_all_iff using research_fallback_blank [OF r n s that] by blast
    {
      assume b: "found_website w \<noteq> [] \<and> matches_nonempty w"
      then have f: "found_website w \<noteq> []" and m: "matches_nonempty w"
        by simp_all
      show "filled profile ''business_model''"
        by (rule research_fallback_website_filled [OF r n s f m]) simp
      show "filled profile ''pricing''"
        by (rule research_fallback_website_filled [OF r n s f m]) simp
      show "filled profile ''api_integration''"
        by (rule research_fallback_website_filled [OF r n s f m]) simp
    }
  qed
  then show ?thesis
    using research_returns [of json_loads w company_name company] attribute_keys_count
    by blast
qed

theorem profile_attributes_present_witness:
  "(\<exists>profile. research_single_company json_loads_sample all_fail ''Acme'' company_acme
        = Inr profile
      \<and> set attribute_keys \<subseteq> set (dict_keys profile)
      \<and> list_all (filled profile) llm_schema_keys
      \<and> filled profile ''fundraising_stage''
      \<and> filled profile ''partnerships_integrations''
      \<and> filled profile ''user_base_growth_rate''
      \<and> list_all (blank profile) website_keys)
   \<and> (\<exists>profile. research_single_company json_loads_sample website_found ''Acme'' company_acme
        = Inr profile
      \<and> list_all (filled profile) llm_schema_keys
      \<and> filled profile ''business_model'' \<and> filled profile ''pricing''
      \<and> filled profile ''api_integration'')"
proof -
  note a = all_fail_world
  note b = website_found_world
  note n = all_fail_no_reply [of json_loads_sample]
  from profile_attributes_present [of json_loads_sample all_fail "''Acme''" company_acme] a(4)
  obtain p where p: "research_single_company json_loads_sample all_fail ''Acme'' company_acme
      = Inr p"
    by blast
  from profile_attributes_present [of json_loads_sample website_found "''Acme''" company_acme]
    b(5)
  obtain q where q: "research_single_company json_loads_sample website_found ''Acme''
      company_acme = Inr q"
    by blast
  from profile_attributes_present [of json_loads_sample all_fail "''Acme''" company_acme p]
    p a(1-3) n
  have 1: "set attribute_keys \<subseteq> set (dict_keys p)
      \<and> list_all (filled p) llm_schema_keys
      \<and> filled p ''fundraising_stage''
      \<and> filled p ''partnerships_integrations''
      \<and> filled p ''user_base_growth_rate''
      \<and> list_all (blank p) website_keys"
    by blast
  from b(1) have "found_website website_found \<noteq> []"
    by simp
  with profile_attributes_present [of json_loads_sample website_found "''Acme''" company_acme q]
    q b(2,3) b(4) [of json_loads_sample]
  have 2: "list_all (filled q) llm_schema_keys
      \<and> filled q ''business_model'' \<and> filled q ''pricing''
      \<and> filled q ''api_integration''"
    by blast
  from p q 1 2 show ?thesis
    by blast
qed

text \<open>
  Claim C1 as stated fails on both paths. With every call to the outside failing, the
  fallback path returns a profile whose business model and pricing are the empty string,
  neither a real value nor the sentinel. With the language model replying the empty
  object, the profile is returned with an empty coverage.
\<close>

theorem profile_without_website_has_empty_values:
  "returned_entry ''business_model''
     (research_single_company json_loads_sample all_fail ''Acme'' company_acme)
     = Inr (Some (JStr []))
   \<and> returned_entry ''pricing''
     (research_single_company json_loads_sample all_fail ''Acme'' company_acme)
     = Inr (Some (JStr []))
   \<and> returned_entry ''coverage''
     (research_single_company json_loads_sample reply_empty_object ''Acme'' company_acme)
     = Inr (Some (JStr []))"
proof -
  from research_returns [OF reply_empty_object_world(3), of "''Acme''" company_acme]
  obtain q where q: "research_single_company json_loads_sample reply_empty_object ''Acme''
      company_acme = Inr q"
    by blast
  from reply_empty_object_coverage [OF q] q
  have c: "returned_entry ''coverage''
     (research_single_company json_loads_sample reply_empty_object ''Acme'' company_acme)
     = Inr (Some (JStr []))"
    by (simp add: returned_entry_def)
  note a = all_fail_world
  from research_returns [OF a(4), of json_loads_sample "''Acme''" company_acme]
  obtain p where p: "research_single_company json_loads_sample all_fail ''Acme'' company_acme
      = Inr p"
    by blast
  have "blank p k" if "k \<in> set website_keys" for k
    using p all_fail_no_reply a(3) a(1) that by (rule research_fallback_blank)
  then have "blank p ''business_model''" "blank p ''pricing''"
    by (simp_all add: website_keys_def)
  with p c show ?thesis
    by (simp add: returned_entry_def blank_def)
qed

end
